theory Spec2Isabelle
  imports Complex_Main "HOL-Library.Monad_Syntax"
begin

section \<open>Shared vocabulary: text, exceptions, logging\<close>

text \<open>
  Python \<open>str\<close> values are modelled as \<open>string\<close>, one \<open>char\<close> per code point, for
  the code points below 256. \<open>bytes\<close> values are byte lists of the same type.
  A value of type \<open>exn\<close> is an instance of \<open>Exception\<close>: its class (as far as the
  handlers of the source tell classes apart) and the text \<open>str(e)\<close> that the handlers put
  into their log lines. What a call can raise in general is a value of type \<open>raised\<close>:
  an instance of \<open>Exception\<close>, or one of the classes that derive from \<open>BaseException\<close>
  only, which no \<open>except Exception\<close> handler catches.
\<close>

type_synonym bytes = string

datatype exn_class =
    TimeoutExpired
  | SubprocessError
  | FileNotFoundError
  | OSError
  | OtherException

datatype exn = Exn exn_class string

fun exn_str :: "exn \<Rightarrow> string" where
  "exn_str (Exn k m) = m"

fun exn_class_of :: "exn \<Rightarrow> exn_class" where
  "exn_class_of (Exn k m) = k"

datatype base_exn = CancelledError | KeyboardInterrupt | SystemExit

datatype raised = Exception exn | BaseException base_exn

datatype level = INFO | WARNING | ERROR

text \<open>\<open>str.isspace\<close> on the code points below 256, which is what \<open>str.strip()\<close> removes.\<close>

definition isspace :: "char \<Rightarrow> bool" where
  "isspace c = (of_char c \<in> {9, 10, 11, 12, 13, 28, 29, 30, 31, 32, 133, 160 :: nat})"

definition strip :: "string \<Rightarrow> string" where
  "strip s = rev (dropWhile isspace (rev (dropWhile isspace s)))"

text \<open>\<open>sep.join(parts)\<close>.\<close>

fun join :: "string \<Rightarrow> string list \<Rightarrow> string" where
  "join sep [] = []"
| "join sep [x] = x"
| "join sep (x # y # ys) = x @ sep @ join sep (y # ys)"

text \<open>\<open>str(n)\<close> for a non-negative integer, as the f-strings of the log lines render lengths.\<close>

definition digit_char :: "nat \<Rightarrow> char" where
  "digit_char d = char_of (48 + d)"

fun str_nat :: "nat \<Rightarrow> string" where
  "str_nat n = (if n < 10 then [digit_char n] else str_nat (n div 10) @ [digit_char (n mod 10)])"

declare str_nat.simps [simp del]

definition newline :: string where
  "newline = [CHR 0x0A]"

section \<open>LocalASRInput: the message aggregator\<close>

text \<open>
  The fields of \<open>LocalASRInput\<close> that its methods read or write. \<open>message_buffer\<close> is the
  FIFO queue (head of the list leaves first). The \<open>IOProvider\<close> and
  \<open>SleepTickerProvider\<close> collaborators are kept as what the object does to them:
  the calls \<open>add_input(label, text, timestamp)\<close> and
  \<open>add_mode_transition_input(text)\<close> in order, and the \<open>skip_sleep\<close> flag.
  \<open>sleeps\<close> lists the arguments of the \<open>asyncio.sleep\<close> calls of the processing loop and
  \<open>log\<close> the lines handed to \<open>logging\<close>.
\<close>

record asr =
  messages :: "string list"
  message_buffer :: "string list"
  descriptor_for_LLM :: string
  skip_sleep :: bool
  io_inputs :: "(string \<times> string \<times> rat) list"
  mode_transitions :: "string list"
  sleeps :: "rat list"
  log :: "(level \<times> string) list"

definition raw_to_text0 :: "string option \<Rightarrow> string option" where
  "raw_to_text0 raw_input = raw_input"

definition raw_to_text :: "string option \<Rightarrow> asr \<Rightarrow> asr" where
  "raw_to_text raw_input s =
     (let pending_message = raw_to_text0 raw_input;
          s1 = (if pending_message = None
                then (if length (messages s) \<noteq> 0 then s\<lparr>skip_sleep := True\<rparr> else s)
                else s)
      in case pending_message of
           None \<Rightarrow> s1
         | Some m \<Rightarrow>
             if length (messages s1) = 0
             then s1\<lparr>messages := messages s1 @ [m]\<rparr>
             else s1\<lparr>messages :=
                       (messages s1)[length (messages s1) - 1 :=
                          last (messages s1) @ '' '' @ m]\<rparr>)"

definition formatted_latest_buffer :: "rat \<Rightarrow> asr \<Rightarrow> string option \<times> asr" where
  "formatted_latest_buffer now s =
     (if length (messages s) = 0 then (None, s)
      else
        let result = newline @ ''INPUT: '' @ descriptor_for_LLM s @ newline
                     @ ''// START'' @ newline
                     @ last (messages s) @ newline
                     @ ''// END'' @ newline;
            s1 = s\<lparr>io_inputs := io_inputs s @ [(descriptor_for_LLM s, last (messages s), now)]\<rparr>;
            s2 = s1\<lparr>mode_transitions := mode_transitions s1 @ [last (messages s1)]\<rparr>
        in (Some result, s2\<lparr>messages := []\<rparr>))"

text \<open>The state \<open>__init__\<close> leaves behind, for the fields above.\<close>

definition asr_init :: asr where
  "asr_init = \<lparr> messages = [], message_buffer = [], descriptor_for_LLM = ''Voice'',
                skip_sleep = False, io_inputs = [], mode_transitions = [], sleeps = [],
                log = [] \<rparr>"

text \<open>A caller's sequence of aggregator operations, run in order; the outputs of the reads are
  collected.\<close>

datatype agg_op = Append "string option" | ReadAndClear rat

fun agg_step :: "agg_op \<Rightarrow> asr \<Rightarrow> asr" where
  "agg_step (Append t) s = raw_to_text t s"
| "agg_step (ReadAndClear now) s = snd (formatted_latest_buffer now s)"

fun agg_run :: "agg_op list \<Rightarrow> asr \<Rightarrow> asr" where
  "agg_run [] s = s"
| "agg_run (x # xs) s = agg_run xs (agg_step x s)"

section \<open>LocalASRInput: gate, transcription and the processing loop\<close>

text \<open>
  What \<open>__init__\<close> fixes for the process: the engine name, the silence threshold, and
  whether the OpenAI client and the Faster-Whisper model objects exist.
\<close>

record asr_config =
  engine :: string
  silence_threshold :: real
  openai_client :: bool
  faster_whisper_model :: bool

text \<open>
  A numpy \<open>float32\<close> value: finite, an infinity or NaN, with the IEEE comparison \<open>>\<close>
  (false whenever NaN is involved).
\<close>

datatype npfloat = Finite real | PosInf | NegInf | NaN

fun np_gt :: "npfloat \<Rightarrow> npfloat \<Rightarrow> bool" where
  "np_gt (Finite a) (Finite b) = (a > b)"
| "np_gt (Finite a) NegInf = True"
| "np_gt PosInf (Finite b) = True"
| "np_gt PosInf NegInf = True"
| "np_gt x y = False"

text \<open>
  The numpy calls are parameters. \<open>np.frombuffer(audio_data, dtype=np.float32)\<close> raises or
  yields the samples. \<open>np.sqrt(np.mean(audio_array**2))\<close> is the value numpy computes in
  \<open>float32\<close> arithmetic for the samples, with its rounding, underflow and NaN (the mean of
  an empty array); it is not the RMS over the reals. \<open>silence_threshold\<close> is the number
  the comparison takes for the configured threshold.
\<close>

type_synonym decoder = "bytes \<Rightarrow> raised + npfloat list"

text \<open>\<open>_record_audio_chunk\<close>: the device yields the recorded bytes or raises.\<close>

definition record_audio_chunk ::
  "raised + bytes \<Rightarrow> base_exn + (bytes option \<times> (level \<times> string) list)" where
  "record_audio_chunk device =
     (case device of
        Inr audio_data \<Rightarrow> Inr (Some audio_data, [])
      | Inl (Exception e) \<Rightarrow> Inr (None, [(ERROR, ''Error recording audio: '' @ exn_str e)])
      | Inl (BaseException b) \<Rightarrow> Inl b)"

text \<open>\<open>_has_speech\<close>: the result and the lines it logs.\<close>

definition has_speech ::
  "decoder \<Rightarrow> (npfloat list \<Rightarrow> npfloat) \<Rightarrow> asr_config \<Rightarrow> bytes \<Rightarrow>
   base_exn + (bool \<times> (level \<times> string) list)" where
  "has_speech frombuffer np_rms cfg audio_data =
     (case frombuffer audio_data of
        Inl (Exception e) \<Rightarrow>
          Inr (False, [(ERROR, ''Error checking speech in audio: '' @ exn_str e)])
      | Inl (BaseException b) \<Rightarrow> Inl b
      | Inr audio_array \<Rightarrow>
          Inr (np_gt (np_rms audio_array) (Finite (silence_threshold cfg)), []))"

text \<open>
  \<open>_transcribe_with_faster_whisper\<close>. The engine is a parameter: given the samples it
  raises or yields the texts of its segments in the order it emits them.
\<close>

definition transcribe_with_faster_whisper ::
  "decoder \<Rightarrow> (npfloat list \<Rightarrow> raised + string list) \<Rightarrow> bytes \<Rightarrow>
   base_exn + (string option \<times> (level \<times> string) list)" where
  "transcribe_with_faster_whisper frombuffer model_transcribe audio_data =
     (case frombuffer audio_data of
        Inl (Exception e) \<Rightarrow> Inr (None, [(ERROR, ''Error with Faster-Whisper: '' @ exn_str e)])
      | Inl (BaseException b) \<Rightarrow> Inl b
      | Inr audio_array \<Rightarrow>
          (case model_transcribe audio_array of
             Inl (Exception e) \<Rightarrow>
               Inr (None, [(ERROR, ''Error with Faster-Whisper: '' @ exn_str e)])
           | Inl (BaseException b) \<Rightarrow> Inl b
           | Inr segments \<Rightarrow>
               let text = join '' '' segments
               in Inr (if text \<noteq> [] then Some (strip text) else None, [])))"

text \<open>
  \<open>_transcribe_with_openai\<close>, as far as its result goes: the hosted endpoint is a
  parameter that raises or returns the transcript. (Its temporary WAV file lives outside
  this state.)
\<close>

definition transcribe_with_openai ::
  "(bytes \<Rightarrow> raised + string) \<Rightarrow> bytes \<Rightarrow>
   base_exn + (string option \<times> (level \<times> string) list)" where
  "transcribe_with_openai create_transcription audio_data =
     (case create_transcription audio_data of
        Inl (Exception e) \<Rightarrow> Inr (None, [(ERROR, ''Error with OpenAI Whisper: '' @ exn_str e)])
      | Inl (BaseException b) \<Rightarrow> Inl b
      | Inr transcript \<Rightarrow>
          Inr (if transcript \<noteq> [] then Some (strip transcript) else None, []))"

text \<open>\<open>_transcribe_audio\<close>. Its own handler has nothing left to catch: the two backends
  let only the non-\<open>Exception\<close> classes through, and those pass it as well.\<close>

definition transcribe_audio ::
  "asr_config \<Rightarrow> decoder \<Rightarrow> (bytes \<Rightarrow> raised + string) \<Rightarrow>
   (npfloat list \<Rightarrow> raised + string list) \<Rightarrow> bytes \<Rightarrow>
   base_exn + (string option \<times> (level \<times> string) list)" where
  "transcribe_audio cfg frombuffer create_transcription model_transcribe audio_data =
     (if engine cfg = ''openai-whisper'' \<and> openai_client cfg
      then transcribe_with_openai create_transcription audio_data
      else if engine cfg = ''faster-whisper'' \<and> faster_whisper_model cfg
      then transcribe_with_faster_whisper frombuffer model_transcribe audio_data
      else Inr (None, [(ERROR, ''No valid ASR engine configured: '' @ engine cfg)]))"

text \<open>
  The words of the specification for the local backend, to compare the code with: the
  segment texts concatenated with single spaces in the order of emission, and what it is
  for \<open>t\<close> to be \<open>full\<close> trimmed of surrounding whitespace.
\<close>

fun space_joined :: "string list \<Rightarrow> string" where
  "space_joined [] = []"
| "space_joined (x # xs) = x @ concat (map (\<lambda>y. CHR '' '' # y) xs)"

definition trimmed_of :: "string \<Rightarrow> string \<Rightarrow> bool" where
  "trimmed_of t full =
     (\<exists>l r. full = l @ t @ r \<and> (\<forall>c\<in>set l. isspace c) \<and> (\<forall>c\<in>set r. isspace c)
            \<and> (t = [] \<or> (\<not> isspace (hd t) \<and> \<not> isspace (last t))))"

text \<open>
  One pass of the body of \<open>_audio_processing_loop\<close>. The three awaited helper calls are
  given by their outcome in this cycle, a value or something raised, so that a raise can
  be placed at any of them. \<open>cycle_body\<close> is the \<open>try\<close> block: \<open>Inl\<close> is what leaves it
  raised.
\<close>

record cycle_env =
  recorded :: "raised + bytes option"
  speech :: "bytes \<Rightarrow> raised + bool"
  transcribed :: "bytes \<Rightarrow> raised + string option"

definition enqueue_text :: "string option \<Rightarrow> asr \<Rightarrow> asr" where
  "enqueue_text text s =
     (case text of
        None \<Rightarrow> s
      | Some t \<Rightarrow>
          if t \<noteq> [] \<and> length (strip t) > 0
          then s\<lparr>message_buffer := message_buffer s @ [strip t],
                 log := log s @ [(INFO, ''ASR transcribed: '' @ strip t)]\<rparr>
          else s)"

definition cycle_body :: "cycle_env \<Rightarrow> asr \<Rightarrow> raised + asr" where
  "cycle_body e s =
     (case recorded e of
        Inl x \<Rightarrow> Inl x
      | Inr None \<Rightarrow> Inr (s\<lparr>sleeps := sleeps s @ [1 / 10]\<rparr>)
      | Inr (Some audio_data) \<Rightarrow>
          if length audio_data > 0 then
            (case speech e audio_data of
               Inl x \<Rightarrow> Inl x
             | Inr False \<Rightarrow> Inr (s\<lparr>sleeps := sleeps s @ [1 / 10]\<rparr>)
             | Inr True \<Rightarrow>
                 (case transcribed e audio_data of
                    Inl x \<Rightarrow> Inl x
                  | Inr text \<Rightarrow>
                      let s1 = enqueue_text text s
                      in Inr (s1\<lparr>sleeps := sleeps s1 @ [1 / 10]\<rparr>)))
          else Inr (s\<lparr>sleeps := sleeps s @ [1 / 10]\<rparr>))"

text \<open>
  The cycle with the handler \<open>except Exception\<close>: an instance of \<open>Exception\<close> is logged and
  followed by the one-second sleep; anything else raised leaves the loop (\<open>Inl\<close>).
\<close>

definition audio_processing_cycle :: "cycle_env \<Rightarrow> asr \<Rightarrow> base_exn + asr" where
  "audio_processing_cycle e s =
     (case cycle_body e s of
        Inr s' \<Rightarrow> Inr s'
      | Inl (Exception x) \<Rightarrow>
          Inr (s\<lparr>log := log s @ [(ERROR, ''Error in audio processing loop: '' @ exn_str x)],
                 sleeps := sleeps s @ [1]\<rparr>)
      | Inl (BaseException b) \<Rightarrow> Inl b)"

text \<open>
  \<open>while True\<close> returns only by a raise. The loop is run over the outcomes of its first
  cycles, one list entry per cycle: the result is the state an observer sees after them,
  with \<open>None\<close> while the loop is still running and \<open>Some b\<close> once \<open>b\<close> has left it, the
  remaining cycles never run.
\<close>

fun audio_processing_loop :: "cycle_env list \<Rightarrow> asr \<Rightarrow> base_exn option \<times> asr" where
  "audio_processing_loop [] s = (None, s)"
| "audio_processing_loop (e # es) s =
     (case audio_processing_cycle e s of
        Inl b \<Rightarrow> (Some b, s)
      | Inr s' \<Rightarrow> audio_processing_loop es s')"

text \<open>The cycle as the class wires it, from the outcomes of the device, of numpy, of the
  hosted endpoint and of the local engine.\<close>

definition lift_call :: "base_exn + ('a \<times> (level \<times> string) list) \<Rightarrow> raised + 'a" where
  "lift_call r = (case r of Inl b \<Rightarrow> Inl (BaseException b) | Inr (v, lines) \<Rightarrow> Inr v)"

definition source_cycle_env ::
  "asr_config \<Rightarrow> decoder \<Rightarrow> (npfloat list \<Rightarrow> npfloat) \<Rightarrow> (bytes \<Rightarrow> raised + string) \<Rightarrow>
   (npfloat list \<Rightarrow> raised + string list) \<Rightarrow> raised + bytes \<Rightarrow> cycle_env" where
  "source_cycle_env cfg frombuffer np_rms create_transcription model_transcribe device =
     \<lparr> recorded = lift_call (record_audio_chunk device),
       speech = (\<lambda>a. lift_call (has_speech frombuffer np_rms cfg a)),
       transcribed = (\<lambda>a. lift_call (transcribe_audio cfg frombuffer create_transcription
                                       model_transcribe a)) \<rparr>"

section \<open>The world of the speech connectors\<close>

text \<open>
  The connectors act on the file system, start subprocesses, post HTTP requests, drive the
  sound device and log. The world records the files (path to content), the counter that
  \<open>tempfile\<close> draws fresh names from, and the trace of those actions in order.
  A temporary path is its number and its suffix.
\<close>

type_synonym path = "nat \<times> string"

definition path_str :: "path \<Rightarrow> string" where
  "path_str p = ''/tmp/tmp'' @ str_nat (fst p) @ snd p"

datatype json = JStr string | JNum rat | JObj "(string \<times> json) list"

datatype event =
    Log level string
  | HttpPost string "(string \<times> string) list" json
  | Subprocess "string list" "string option"
  | SoundPlay bytes

record world =
  fs :: "path \<rightharpoonup> bytes"
  next_tmp :: nat
  trace :: "event list"

definition emit :: "event \<Rightarrow> world \<Rightarrow> world" where
  "emit ev w = w\<lparr>trace := trace w @ [ev]\<rparr>"

text \<open>\<open>tempfile.NamedTemporaryFile(suffix=..., delete=False)\<close>, closed again: an empty file
  under a fresh name that stays on disk.\<close>

definition NamedTemporaryFile :: "string \<Rightarrow> world \<Rightarrow> path \<times> world" where
  "NamedTemporaryFile suffix w =
     ((next_tmp w, suffix),
      w\<lparr>fs := (fs w)((next_tmp w, suffix) \<mapsto> []), next_tmp := Suc (next_tmp w)\<rparr>)"

definition write_file :: "path \<Rightarrow> bytes \<Rightarrow> world \<Rightarrow> world" where
  "write_file p content w = w\<lparr>fs := (fs w)(p \<mapsto> content)\<rparr>"

text \<open>\<open>os.unlink\<close> raises \<open>FileNotFoundError\<close> when the file is not there.\<close>

definition unlink :: "path \<Rightarrow> world \<Rightarrow> exn + world" where
  "unlink p w =
     (if p \<in> dom (fs w) then Inr (w\<lparr>fs := (fs w)(p := None)\<rparr>)
      else Inl (Exn FileNotFoundError (''No such file or directory: '' @ path_str p)))"

text \<open>What running a subprocess to its end comes to: an exit code with the captured standard
  error, or an exception (the executable is missing, the time limit passed). In the
  connectors what the outside raises is an instance of \<open>Exception\<close>; an interrupt or a
  cancellation in the middle of a synthesis call is not part of their model.\<close>

datatype proc_result = Exited int string | Raised exn

definition is_http :: "event \<Rightarrow> bool" where
  "is_http ev = (case ev of HttpPost u h b \<Rightarrow> True | _ \<Rightarrow> False)"

definition is_subprocess :: "event \<Rightarrow> bool" where
  "is_subprocess ev = (case ev of Subprocess argv inp \<Rightarrow> True | _ \<Rightarrow> False)"

definition is_sound :: "event \<Rightarrow> bool" where
  "is_sound ev = (case ev of SoundPlay b \<Rightarrow> True | _ \<Rightarrow> False)"

text \<open>A run of the synthesis executable: a subprocess that is given an \<open>--output_file\<close>.\<close>

definition is_synthesis :: "event \<Rightarrow> bool" where
  "is_synthesis ev =
     (case ev of Subprocess argv inp \<Rightarrow> ''--output_file'' \<in> set argv | _ \<Rightarrow> False)"

section \<open>LocalElevenLabsTTSConnector\<close>

record tts_config =
  cfg_voice_id :: "string option"
  cfg_model_id :: "string option"
  cfg_stability :: "rat option"
  cfg_similarity_boost :: "rat option"
  cfg_piper_model :: "string option"
  cfg_piper_executable :: "string option"
  cfg_sample_rate :: "int option"

record elevenlabs_connector =
  elevenlabs_api_key :: "string option"
  voice_id :: string
  model_id :: string
  stability :: rat
  similarity_boost :: rat
  piper_model :: string
  piper_executable :: string
  sample_rate :: int
  session :: bool
  use_elevenlabs :: bool

text \<open>\<open>config.get(key, default)\<close>.\<close>

definition get_default :: "'a option \<Rightarrow> 'a \<Rightarrow> 'a" where
  "get_default v d = (case v of None \<Rightarrow> d | Some x \<Rightarrow> x)"

text \<open>\<open>_check_piper_availability\<close> of this class: it logs and returns nothing; an exception
  other than the two it names leaves it.\<close>

definition elevenlabs_check_piper_availability ::
  "elevenlabs_connector \<Rightarrow> proc_result \<Rightarrow> world \<Rightarrow> exn option \<times> world" where
  "elevenlabs_check_piper_availability c probe w =
     (let w1 = emit (Subprocess [piper_executable c, ''--help''] None) w
      in case probe of
           Exited returncode err \<Rightarrow>
             if returncode = 0
             then (None, emit (Log INFO ''Piper TTS is available for local synthesis.'') w1)
             else (None, emit (Log WARNING
                     ''Piper TTS not found. Install with: pip install piper-tts'') w1)
         | Raised e \<Rightarrow>
             if exn_class_of e = TimeoutExpired \<or> exn_class_of e = FileNotFoundError
             then (None, emit (Log WARNING
                     ''Piper TTS not found. Install with: pip install piper-tts'') w1)
             else (Some e, w1))"

text \<open>\<open>__init__\<close>: the key is what \<open>os.getenv("ELEVENLABS_API_KEY")\<close> returned, and
  \<open>bool\<close> of it is false for \<open>None\<close> and for the empty string.\<close>

definition elevenlabs_init ::
  "tts_config \<Rightarrow> string option \<Rightarrow> proc_result \<Rightarrow> world \<Rightarrow> (exn + elevenlabs_connector) \<times> world" where
  "elevenlabs_init config key probe w =
     (let c = \<lparr> elevenlabs_api_key = key,
                 voice_id = get_default (cfg_voice_id config) ''EXAVITQu4vr4xnSDxMaL'',
                 model_id = get_default (cfg_model_id config) ''eleven_monolingual_v1'',
                 stability = get_default (cfg_stability config) (1 / 2),
                 similarity_boost = get_default (cfg_similarity_boost config) (1 / 2),
                 piper_model = get_default (cfg_piper_model config) ''en_US-lessac-medium'',
                 piper_executable = get_default (cfg_piper_executable config) ''piper'',
                 sample_rate = get_default (cfg_sample_rate config) 22050,
                 session = False,
                 use_elevenlabs = (key \<noteq> None \<and> key \<noteq> Some []) \<rparr>
      in if \<not> use_elevenlabs c then
           (let w1 = emit (Log INFO
                       ''ElevenLabs API key not found. Will use Piper TTS as fallback.'') w
            in case elevenlabs_check_piper_availability c probe w1 of
                 (None, w2) \<Rightarrow> (Inr c, w2)
               | (Some e, w2) \<Rightarrow> (Inl e, w2))
         else (Inr c, w))"

text \<open>
  What the outside does during one call: the answer to the HTTP request (a status with the
  body, or an exception), how the Piper process ends and what it has left in its output
  file by then, and whether decoding or the sound device raise during playback.
\<close>

record tts_env =
  http_response :: "exn + (int \<times> bytes)"
  piper_process :: proc_result
  piper_output :: bytes
  sf_read :: "exn option"
  sd_play :: "exn option"

text \<open>\<open>_synthesize_piper\<close>. Everything after the \<open>try:\<close> that raises ends in the one
  handler, which logs and returns \<open>None\<close> and removes nothing.\<close>

definition synthesize_piper ::
  "elevenlabs_connector \<Rightarrow> tts_env \<Rightarrow> string \<Rightarrow> world \<Rightarrow> bytes option \<times> world" where
  "synthesize_piper c env text w =
     (let (text_file_path, w1) = NamedTemporaryFile ''.txt'' w;
          w2 = write_file text_file_path text w1;
          (audio_file_path, w3) = NamedTemporaryFile ''.wav'' w2;
          cmd = [piper_executable c, ''--model'', piper_model c,
                 ''--output_file'', path_str audio_file_path];
          w4 = emit (Subprocess cmd (Some text)) w3;
          handler = (\<lambda>e wx. (None, emit (Log ERROR (''Piper synthesis error: '' @ exn_str e)) wx))
      in case piper_process env of
           Raised e \<Rightarrow> handler e w4
         | Exited returncode err \<Rightarrow>
             let w5 = write_file audio_file_path (piper_output env) w4
             in if returncode = 0 then
                  (case fs w5 audio_file_path of
                     None \<Rightarrow> handler (Exn FileNotFoundError
                               (''No such file or directory: '' @ path_str audio_file_path)) w5
                   | Some audio_data \<Rightarrow>
                       (case unlink text_file_path w5 of
                          Inl e \<Rightarrow> handler e w5
                        | Inr w6 \<Rightarrow>
                            (case unlink audio_file_path w6 of
                               Inl e \<Rightarrow> handler e w6
                             | Inr w7 \<Rightarrow>
                                 (Some audio_data,
                                  emit (Log INFO (''Piper TTS synthesized ''
                                    @ str_nat (length text) @ '' characters'')) w7))))
                else
                  (let w6 = emit (Log ERROR (''Piper TTS error: '' @ err)) w5
                   in case unlink text_file_path w6 of
                        Inl e \<Rightarrow> handler e w6
                      | Inr w7 \<Rightarrow>
                          (case unlink audio_file_path w7 of
                             Inl e \<Rightarrow> handler e w7
                           | Inr w8 \<Rightarrow> (None, w8))))"

text \<open>\<open>_synthesize_elevenlabs\<close>, with \<open>_get_session\<close> inlined (a session is open
  afterwards). Both the non-200 branch and the handler fall back to Piper.\<close>

definition synthesize_elevenlabs ::
  "elevenlabs_connector \<Rightarrow> tts_env \<Rightarrow> string \<Rightarrow> world \<Rightarrow>
   bytes option \<times> elevenlabs_connector \<times> world" where
  "synthesize_elevenlabs c env text w =
     (let url = ''https://api.elevenlabs.io/v1/text-to-speech/'' @ voice_id c;
          headers = [(''Accept'', ''audio/mpeg''),
                     (''Content-Type'', ''application/json''),
                     (''xi-api-key'', get_default (elevenlabs_api_key c) [])];
          data = JObj [(''text'', JStr text),
                       (''model_id'', JStr (model_id c)),
                       (''voice_settings'',
                          JObj [(''stability'', JNum (stability c)),
                                (''similarity_boost'', JNum (similarity_boost c))])];
          c1 = c\<lparr>session := True\<rparr>;
          w1 = emit (HttpPost url headers data) w
      in case http_response env of
           Inr (status, body) \<Rightarrow>
             if status = 200 then
               (Some body, c1,
                emit (Log INFO (''ElevenLabs TTS synthesized ''
                  @ str_nat (length text) @ '' characters'')) w1)
             else
               (let w2 = emit (Log ERROR (''ElevenLabs API error '' @
                            (if status < 0 then ''-'' else []) @ str_nat (nat \<bar>status\<bar>)
                            @ '': '' @ body)) w1;
                    w3 = emit (Log INFO ''Falling back to Piper TTS'') w2;
                    (r, w4) = synthesize_piper c1 env text w3
                in (r, c1, w4))
         | Inl e \<Rightarrow>
             (let w2 = emit (Log ERROR (''ElevenLabs synthesis error: '' @ exn_str e)) w1;
                  w3 = emit (Log INFO ''Falling back to Piper TTS'') w2;
                  (r, w4) = synthesize_piper c1 env text w3
              in (r, c1, w4)))"

definition synthesize ::
  "elevenlabs_connector \<Rightarrow> tts_env \<Rightarrow> string \<Rightarrow> world \<Rightarrow>
   bytes option \<times> elevenlabs_connector \<times> world" where
  "synthesize c env text w =
     (if use_elevenlabs c then synthesize_elevenlabs c env text w
      else (let (r, w1) = synthesize_piper c env text w in (r, c, w1)))"

text \<open>\<open>_play_audio\<close> of this class: best effort, every exception is logged and dropped.\<close>

definition elevenlabs_play_audio :: "tts_env \<Rightarrow> bytes \<Rightarrow> world \<Rightarrow> world" where
  "elevenlabs_play_audio env audio_data w =
     (let (temp_file_path, w1) = NamedTemporaryFile ''.wav'' w;
          w2 = write_file temp_file_path audio_data w1;
          handler = (\<lambda>e wx. emit (Log ERROR (''Error playing audio: '' @ exn_str e)) wx)
      in case sf_read env of
           Some e \<Rightarrow> handler e w2
         | None \<Rightarrow>
             (case sd_play env of
                Some e \<Rightarrow> handler e w2
              | None \<Rightarrow>
                  (let w3 = emit (SoundPlay audio_data) w2
                   in case unlink temp_file_path w3 of
                        Inl e \<Rightarrow> handler e w3
                      | Inr w4 \<Rightarrow> w4)))"

text \<open>\<open>speak\<close>. \<open>not audio_data\<close> holds for \<open>None\<close> and for empty bytes. Neither callee lets
  an exception out, so the handler of \<open>speak\<close> has nothing to catch.\<close>

definition speak ::
  "elevenlabs_connector \<Rightarrow> tts_env \<Rightarrow> string \<Rightarrow> world \<Rightarrow> bool \<times> elevenlabs_connector \<times> world" where
  "speak c env text w =
     (let (audio_data, c1, w1) = synthesize c env text w
      in case audio_data of
           None \<Rightarrow> (False, c1, w1)
         | Some a \<Rightarrow>
             if a = [] then (False, c1, w1)
             else (True, c1, elevenlabs_play_audio env a w1))"

text \<open>The calls a client makes on one connector, each with what the outside does during it.\<close>

datatype tts_call = Synthesize string tts_env | Speak string tts_env

fun tts_step :: "tts_call \<Rightarrow> elevenlabs_connector \<times> world \<Rightarrow> elevenlabs_connector \<times> world" where
  "tts_step (Synthesize text env) (c, w) = snd (synthesize c env text w)"
| "tts_step (Speak text env) (c, w) = snd (speak c env text w)"

fun tts_run :: "tts_call list \<Rightarrow> elevenlabs_connector \<times> world \<Rightarrow> elevenlabs_connector \<times> world" where
  "tts_run [] cw = cw"
| "tts_run (x # xs) cw = tts_run xs (tts_step x cw)"

section \<open>PiperTTSConnector\<close>

text \<open>
  The attributes \<open>__init__\<close> sets. The three float parameters are kept as the text that
  \<open>str\<close> gives for them, which is all the command line uses.
\<close>

record piper_config =
  cfg_model_path :: "string option"
  cfg_config_path :: "string option"
  cfg_speaker_id :: "int option option"
  cfg_length_scale :: "string option"
  cfg_noise_scale :: "string option"
  cfg_noise_w :: "string option"

record piper_connector =
  model_path :: string
  config_path :: string
  speaker_id :: "int option"
  length_scale :: string
  noise_scale :: string
  noise_w :: string
  piper_available :: bool

definition str_int :: "int \<Rightarrow> string" where
  "str_int i = (if i < 0 then ''-'' @ str_nat (nat (- i)) else str_nat (nat i))"

definition probe_caught :: "exn \<Rightarrow> bool" where
  "probe_caught e =
     (exn_class_of e = TimeoutExpired \<or> exn_class_of e = FileNotFoundError
      \<or> exn_class_of e = SubprocessError)"

text \<open>\<open>_check_piper_availability\<close> of this class: \<open>piper --version\<close>, and when that raises
  one of the three named exceptions, \<open>python -m piper --version\<close>.\<close>

definition piper_check_piper_availability ::
  "proc_result \<Rightarrow> proc_result \<Rightarrow> world \<Rightarrow> (exn + bool) \<times> world" where
  "piper_check_piper_availability probe1 probe2 w =
     (let w1 = emit (Subprocess [''piper'', ''--version''] None) w
      in case probe1 of
           Exited returncode err \<Rightarrow> (Inr (returncode = 0), w1)
         | Raised e \<Rightarrow>
             if probe_caught e then
               (let w2 = emit (Subprocess [''python'', ''-m'', ''piper'', ''--version''] None) w1
                in case probe2 of
                     Exited returncode err \<Rightarrow> (Inr (returncode = 0), w2)
                   | Raised e2 \<Rightarrow> if probe_caught e2 then (Inr False, w2) else (Inl e2, w2))
             else (Inl e, w1))"

definition piper_init ::
  "piper_config \<Rightarrow> proc_result \<Rightarrow> proc_result \<Rightarrow> world \<Rightarrow> (exn + piper_connector) \<times> world" where
  "piper_init config probe1 probe2 w =
     (case piper_check_piper_availability probe1 probe2 w of
        (Inl e, w1) \<Rightarrow> (Inl e, w1)
      | (Inr available, w1) \<Rightarrow>
          (Inr \<lparr> model_path = get_default (cfg_model_path config)
                    ''/usr/local/share/piper/voices/en_US-lessac-medium.onnx'',
                 config_path = get_default (cfg_config_path config)
                    ''/usr/local/share/piper/voices/en_US-lessac-medium.onnx.json'',
                 speaker_id = get_default (cfg_speaker_id config) (Some 0),
                 length_scale = get_default (cfg_length_scale config) ''1.0'',
                 noise_scale = get_default (cfg_noise_scale config) ''0.667'',
                 noise_w = get_default (cfg_noise_w config) ''0.8'',
                 piper_available = available \<rparr>,
           if \<not> available
           then emit (Log WARNING ''Piper TTS not available. Speech will be logged only.'') w1
           else w1))"

text \<open>During one \<open>connect\<close>: how the Piper process ends, and how each player ends when it is
  run on the audio file.\<close>

record piper_env =
  piper_run :: proc_result
  player_run :: "string \<Rightarrow> proc_result"

text \<open>\<open>_synthesize_with_piper\<close>: the path of the audio file, or \<open>None\<close>. Only the branch of
  a non-zero exit removes the file; the two handlers log and return.\<close>

definition synthesize_with_piper ::
  "piper_connector \<Rightarrow> piper_env \<Rightarrow> string \<Rightarrow> world \<Rightarrow> path option \<times> world" where
  "synthesize_with_piper c env text w =
     (let (output_path, w1) = NamedTemporaryFile ''.wav'' w;
          cmd = [''piper'', ''--model'', model_path c, ''--config'', config_path c,
                 ''--output_file'', path_str output_path]
                @ (case speaker_id c of None \<Rightarrow> [] | Some i \<Rightarrow> [''--speaker'', str_int i])
                @ [''--length_scale'', length_scale c]
                @ [''--noise_scale'', noise_scale c]
                @ [''--noise_w'', noise_w c];
          w2 = emit (Subprocess cmd (Some text)) w1
      in case piper_run env of
           Exited returncode err \<Rightarrow>
             if returncode = 0
             then (Some output_path,
                   emit (Log INFO (''Piper TTS synthesis successful: '' @ path_str output_path)) w2)
             else
               (let w3 = emit (Log ERROR (''Piper TTS failed: '' @ err)) w2
                in if output_path \<in> dom (fs w3)
                   then (case unlink output_path w3 of
                           Inr w4 \<Rightarrow> (None, w4)
                         | Inl e \<Rightarrow>
                             (None, emit (Log ERROR
                                (''Piper TTS synthesis error: '' @ exn_str e)) w3))
                   else (None, w3))
         | Raised e \<Rightarrow>
             if exn_class_of e = TimeoutExpired
             then (None, emit (Log ERROR ''Piper TTS synthesis timed out'') w2)
             else (None, emit (Log ERROR (''Piper TTS synthesis error: '' @ exn_str e)) w2))"

text \<open>The \<open>for player in players\<close> loop of \<open>_play_audio\<close>: \<open>Inr\<close> is the value returned from
  inside or after the loop, \<open>Inl\<close> an exception that the inner handler does not name.\<close>

fun try_players :: "piper_env \<Rightarrow> path \<Rightarrow> string list \<Rightarrow> world \<Rightarrow> (exn + bool) \<times> world" where
  "try_players env audio_path [] w =
     (Inr False, emit (Log WARNING ''No suitable audio player found'') w)"
| "try_players env audio_path (player # players) w =
     (let w1 = emit (Subprocess [player, path_str audio_path] None) w
      in case player_run env player of
           Exited returncode err \<Rightarrow>
             if returncode = 0
             then (Inr True, emit (Log INFO (''Audio played successfully with '' @ player)) w1)
             else try_players env audio_path players w1
         | Raised e \<Rightarrow>
             if exn_class_of e = FileNotFoundError \<or> exn_class_of e = TimeoutExpired
             then try_players env audio_path players w1
             else (Inl e, w1))"

definition piper_play_audio :: "piper_env \<Rightarrow> path \<Rightarrow> world \<Rightarrow> bool \<times> world" where
  "piper_play_audio env audio_path w =
     (case try_players env audio_path [''aplay'', ''paplay'', ''play'', ''ffplay''] w of
        (Inr b, w1) \<Rightarrow> (b, w1)
      | (Inl e, w1) \<Rightarrow> (False, emit (Log ERROR (''Audio playback error: '' @ exn_str e)) w1))"

text \<open>\<open>connect\<close>. The \<open>OSError\<close> of the final \<open>os.unlink\<close> is passed over.\<close>

definition connect :: "piper_connector \<Rightarrow> piper_env \<Rightarrow> string \<Rightarrow> world \<Rightarrow> world" where
  "connect c env sentence w =
     (let w1 = emit (Log INFO (''Piper TTS speaking: '' @ sentence)) w
      in if \<not> piper_available c
         then emit (Log INFO (''[MOCK TTS] Would speak: '' @ sentence)) w1
         else
           (case synthesize_with_piper c env sentence w1 of
              (Some audio_path, w2) \<Rightarrow>
                (let (success, w3) = piper_play_audio env audio_path w2;
                     w4 = (case unlink audio_path w3 of Inr w' \<Rightarrow> w' | Inl e \<Rightarrow> w3)
                 in if \<not> success
                    then emit (Log WARNING
                           (''Audio synthesis succeeded but playback failed: '' @ sentence)) w4
                    else w4)
            | (None, w2) \<Rightarrow> emit (Log ERROR (''Failed to synthesize speech: '' @ sentence)) w2))"

fun connect_all :: "piper_connector \<Rightarrow> (piper_env \<times> string) list \<Rightarrow> world \<Rightarrow> world" where
  "connect_all c [] w = w"
| "connect_all c ((env, sentence) # rest) w = connect_all c rest (connect c env sentence w)"

definition world0 :: world where
  "world0 = \<lparr> fs = Map.empty, next_tmp = 0, trace = [] \<rparr>"

section \<open>Sample inputs\<close>

text \<open>The command line \<open>_synthesize_piper\<close> builds when it starts in world \<open>w\<close>.\<close>

definition piper_cmd :: "elevenlabs_connector \<Rightarrow> world \<Rightarrow> string list" where
  "piper_cmd c w = [piper_executable c, ''--model'', piper_model c, ''--output_file'',
                    path_str (Suc (next_tmp w), ''.wav'')]"

text \<open>The connector that \<open>LocalElevenLabsTTSConnector()\<close> builds from an empty config, without
  a key in the environment and with one.\<close>

definition empty_config :: tts_config where
  "empty_config = \<lparr> cfg_voice_id = None, cfg_model_id = None, cfg_stability = None,
                     cfg_similarity_boost = None, cfg_piper_model = None,
                     cfg_piper_executable = None, cfg_sample_rate = None \<rparr>"

definition keyless_connector :: elevenlabs_connector where
  "keyless_connector =
     \<lparr> elevenlabs_api_key = None, voice_id = ''EXAVITQu4vr4xnSDxMaL'',
       model_id = ''eleven_monolingual_v1'', stability = 1 / 2, similarity_boost = 1 / 2,
       piper_model = ''en_US-lessac-medium'', piper_executable = ''piper'',
       sample_rate = 22050, session = False, use_elevenlabs = False \<rparr>"

definition keyed_connector :: elevenlabs_connector where
  "keyed_connector = keyless_connector\<lparr>elevenlabs_api_key := Some ''sk_test'',
                                        use_elevenlabs := True\<rparr>"

text \<open>Outside behaviours of one call: the API answers 500 and Piper succeeds; the API answers
  500 and the Piper executable is missing.\<close>

definition env_500_piper_ok :: tts_env where
  "env_500_piper_ok =
     \<lparr> http_response = Inr (500, ''Internal Server Error''), piper_process = Exited 0 [],
       piper_output = ''RIFF'', sf_read = None, sd_play = None \<rparr>"

definition env_500_piper_missing :: tts_env where
  "env_500_piper_missing =
     env_500_piper_ok\<lparr>piper_process := Raised (Exn FileNotFoundError ''piper'')\<rparr>"

text \<open>A \<open>PiperTTSConnector\<close> built from a config without attributes while both probes fail,
  and the world its constructor leaves.\<close>

definition bare_piper_config :: piper_config where
  "bare_piper_config = \<lparr> cfg_model_path = None, cfg_config_path = None, cfg_speaker_id = None,
                          cfg_length_scale = None, cfg_noise_scale = None, cfg_noise_w = None \<rparr>"

definition mock_piper_connector :: piper_connector where
  "mock_piper_connector =
     \<lparr> model_path = ''/usr/local/share/piper/voices/en_US-lessac-medium.onnx'',
       config_path = ''/usr/local/share/piper/voices/en_US-lessac-medium.onnx.json'',
       speaker_id = Some 0, length_scale = ''1.0'', noise_scale = ''0.667'', noise_w = ''0.8'',
       piper_available = False \<rparr>"

definition piper_missing :: proc_result where
  "piper_missing = Raised (Exn FileNotFoundError ''piper'')"

definition piper_env_ok :: piper_env where
  "piper_env_ok = \<lparr> piper_run = Exited 0 [], player_run = (\<lambda>p. Exited 0 []) \<rparr>"

text \<open>The API answers 500, Piper succeeds, and the sound device then refuses to play.\<close>

definition env_500_no_device :: tts_env where
  "env_500_no_device =
     env_500_piper_ok\<lparr>sd_play := Some (Exn OtherException ''Error querying device -1'')\<rparr>"

text \<open>Cycles of the processing loop with a raise placed at one of the three calls: the
  recording raises, the gate raises, the transcription raises; and a cycle that hears \<open>hi\<close>.\<close>

definition boom :: exn where
  "boom = Exn OtherException ''boom''"

definition cycle_record_raises :: cycle_env where
  "cycle_record_raises =
     \<lparr> recorded = Inl (Exception boom), speech = (\<lambda>a. Inr True),
       transcribed = (\<lambda>a. Inr (Some ''hi'')) \<rparr>"

definition cycle_gate_raises :: cycle_env where
  "cycle_gate_raises =
     \<lparr> recorded = Inr (Some ''pcm''), speech = (\<lambda>a. Inl (Exception boom)),
       transcribed = (\<lambda>a. Inr (Some ''hi'')) \<rparr>"

definition cycle_transcribe_raises :: cycle_env where
  "cycle_transcribe_raises =
     \<lparr> recorded = Inr (Some ''pcm''), speech = (\<lambda>a. Inr True),
       transcribed = (\<lambda>a. Inl (Exception boom)) \<rparr>"

definition cycle_hears_hi :: cycle_env where
  "cycle_hears_hi =
     \<lparr> recorded = Inr (Some ''pcm''), speech = (\<lambda>a. Inr True),
       transcribed = (\<lambda>a. Inr (Some '' hi '')) \<rparr>"

text \<open>The class wired to an outside: the hosted engine is configured, one sample \<open>1.0\<close> is
  decoded from every chunk and numpy's RMS of it is \<open>1.0\<close>.\<close>

definition openai_cfg :: asr_config where
  "openai_cfg = \<lparr> engine = ''openai-whisper'', silence_threshold = 1 / 100,
                   openai_client = True, faster_whisper_model = False \<rparr>"

definition one_sample :: decoder where
  "one_sample = (\<lambda>b. Inr [Finite 1])"

definition rms_of_one :: "npfloat list \<Rightarrow> npfloat" where
  "rms_of_one = (\<lambda>xs. if xs = [Finite 1] then Finite 1 else NaN)"

text \<open>Two cycles of that class: the task is cancelled while the upload to the hosted engine
  is awaited, and the microphone fails in \<open>sd.rec\<close>.\<close>

definition cycle_upload_cancelled :: cycle_env where
  "cycle_upload_cancelled =
     source_cycle_env openai_cfg one_sample rms_of_one
       (\<lambda>b. Inl (BaseException CancelledError)) (\<lambda>a. Inr []) (Inr ''pcm'')"

definition cycle_microphone_fails :: cycle_env where
  "cycle_microphone_fails =
     source_cycle_env openai_cfg one_sample rms_of_one
       (\<lambda>b. Inr ''hi'') (\<lambda>a. Inr []) (Inl (Exception boom))"

section \<open>Facts about text and the aggregator\<close>

lemma strip_empty_iff: "strip t = [] \<longleftrightarrow> (\<forall>c\<in>set t. isspace c)"
proof
  assume "strip t = []"
  then have "dropWhile isspace (rev (dropWhile isspace t)) = []"
    by (simp add: strip_def)
  then have all: "\<forall>c\<in>set (dropWhile isspace t). isspace c"
    by simp
  have "dropWhile isspace t = []"
  proof (cases "dropWhile isspace t")
    case Nil
    then show ?thesis .
  next
    case (Cons x xs)
    then have "\<not> isspace x" by (metis hd_dropWhile list.sel(1) list.distinct(1))
    moreover from Cons all have "isspace x" by simp
    ultimately show ?thesis by simp
  qed
  then show "\<forall>c\<in>set t. isspace c" by simp
next
  assume "\<forall>c\<in>set t. isspace c"
  then have d: "dropWhile isspace t = []" by simp
  show "strip t = []" unfolding strip_def d by simp
qed

lemma agg_step_length: "length (messages s) \<le> 1 \<Longrightarrow> length (messages (agg_step x s)) \<le> 1"
  by (cases x)
     (auto simp: raw_to_text_def raw_to_text0_def formatted_latest_buffer_def Let_def
           split: option.splits)

lemma agg_run_length: "length (messages s) \<le> 1 \<Longrightarrow> length (messages (agg_run xs s)) \<le> 1"
proof (induction xs arbitrary: s)
  case Nil
  then show ?case by simp
next
  case (Cons x xs)
  from Cons.prems have "length (messages (agg_step x s)) \<le> 1" by (rule agg_step_length)
  then show ?case using Cons.IH by simp
qed

text \<open>
  Claim C5. From the empty buffer, appending \<open>a\<close> and then \<open>b\<close> leaves the single entry
  \<open>a b\<close>. The read that follows returns the block with the header \<open>INPUT: Voice\<close>, the
  start marker, \<open>a b\<close> and the end marker, reports the text to the IO provider, and
  empties the buffer; a second read right after returns \<open>None\<close> and changes nothing.
\<close>

theorem append_a_b_then_read:
  "messages (raw_to_text (Some ''b'') (raw_to_text (Some ''a'') asr_init)) = [''a b'']
   \<and> formatted_latest_buffer now (raw_to_text (Some ''b'') (raw_to_text (Some ''a'') asr_init))
       = (Some (newline @ ''INPUT: Voice'' @ newline @ ''// START'' @ newline @ ''a b''
                @ newline @ ''// END'' @ newline),
          asr_init\<lparr>io_inputs := [(''Voice'', ''a b'', now)], mode_transitions := [''a b'']\<rparr>)
   \<and> formatted_latest_buffer now'
        (snd (formatted_latest_buffer now
               (raw_to_text (Some ''b'') (raw_to_text (Some ''a'') asr_init))))
       = (None, asr_init\<lparr>io_inputs := [(''Voice'', ''a b'', now)], mode_transitions := [''a b'']\<rparr>)"
  by (simp add: raw_to_text_def raw_to_text0_def asr_init_def formatted_latest_buffer_def Let_def)

theorem append_a_b_then_read_witness:
  "fst (formatted_latest_buffer 0 (raw_to_text (Some ''b'') (raw_to_text (Some ''a'') asr_init)))
     = Some (newline @ ''INPUT: Voice'' @ newline @ ''// START'' @ newline @ ''a b''
                @ newline @ ''// END'' @ newline)"
  using append_a_b_then_read [of 0 0] by simp

text \<open>
  Claim C9. Starting from the empty buffer, after any sequence of appends (with or without
  text) and reads the list \<open>messages\<close> has length 0 or 1: an append with text becomes the
  sole entry of an empty buffer, and is joined with one space onto the entry of a buffer
  that holds one.
\<close>

theorem messages_at_most_one:
  "length (messages (agg_run ops asr_init)) \<le> 1
   \<and> (messages s = [] \<longrightarrow> messages (raw_to_text (Some m) s) = [m])
   \<and> (messages s = [x] \<longrightarrow> messages (raw_to_text (Some m) s) = [x @ '' '' @ m])"
proof -
  have "length (messages asr_init) \<le> 1" by (simp add: asr_init_def)
  then have "length (messages (agg_run ops asr_init)) \<le> 1" by (rule agg_run_length)
  moreover have "messages s = [] \<longrightarrow> messages (raw_to_text (Some m) s) = [m]"
    by (simp add: raw_to_text_def raw_to_text0_def)
  moreover have "messages s = [x] \<longrightarrow> messages (raw_to_text (Some m) s) = [x @ '' '' @ m]"
    by (simp add: raw_to_text_def raw_to_text0_def)
  ultimately show ?thesis by blast
qed

theorem messages_at_most_one_witness:
  "length (messages (agg_run [Append (Some ''a''), Append None, Append (Some ''b''),
                              ReadAndClear 3, Append (Some ''c'')] asr_init)) \<le> 1
   \<and> messages asr_init = []
   \<and> messages (raw_to_text (Some ''a'') asr_init) = [''a'']
   \<and> messages (raw_to_text (Some ''b'') (raw_to_text (Some ''a'') asr_init)) = [''a b'']"
  using messages_at_most_one [of "[Append (Some ''a''), Append None, Append (Some ''b''),
                              ReadAndClear 3, Append (Some ''c'')]" asr_init "''a''" "''a''"]
        messages_at_most_one [of "[]" "raw_to_text (Some ''a'') asr_init" "''b''" "''a''"]
  by (simp add: asr_init_def)

section \<open>The gate\<close>

text \<open>
  Claim C2, as amended. When the chunk decodes and the RMS that numpy computes for it is the
  finite value \<open>r\<close>, \<open>_has_speech\<close> is true exactly when \<open>r\<close> is strictly above the
  silence threshold: false below the threshold and false at the threshold itself.
\<close>

theorem has_speech_strictly_above:
  assumes "frombuffer audio_data = Inr audio_array" and "np_rms audio_array = Finite r"
  shows "has_speech frombuffer np_rms cfg audio_data = Inr (r > silence_threshold cfg, [])"
  using assms by (simp add: has_speech_def)

theorem has_speech_strictly_above_witness:
  "has_speech one_sample (\<lambda>xs. Finite (5 / 2)) openai_cfg ''1234'' = Inr (True, [])
   \<and> has_speech one_sample (\<lambda>xs. Finite (1 / 200)) openai_cfg ''1234'' = Inr (False, [])
   \<and> has_speech one_sample (\<lambda>xs. Finite (1 / 100)) openai_cfg ''1234'' = Inr (False, [])"
  using has_speech_strictly_above [of one_sample "''1234''" "[Finite 1]" "\<lambda>xs. Finite (5 / 2)" "5 / 2" openai_cfg]
        has_speech_strictly_above [of one_sample "''1234''" "[Finite 1]" "\<lambda>xs. Finite (1 / 200)" "1 / 200" openai_cfg]
        has_speech_strictly_above [of one_sample "''1234''" "[Finite 1]" "\<lambda>xs. Finite (1 / 100)" "1 / 100" openai_cfg]
  by (simp add: one_sample_def openai_cfg_def)

text \<open>
  The boundary the claim pins to true: one sample \<open>1.0\<close> (the bytes \<open>00 00 80 3F\<close>), whose
  RMS numpy computes as \<open>1.0\<close>, and the threshold at \<open>1.0\<close>. The gate answers false.
\<close>

theorem has_speech_at_threshold_counterexample:
  "rms_of_one [Finite 1] = Finite 1
   \<and> silence_threshold (openai_cfg\<lparr>silence_threshold := 1\<rparr>) = 1
   \<and> has_speech one_sample rms_of_one (openai_cfg\<lparr>silence_threshold := 1\<rparr>)
        [CHR 0x00, CHR 0x00, CHR 0x80, CHR 0x3F] = Inr (False, [])"
  by (simp add: has_speech_def rms_of_one_def one_sample_def openai_cfg_def)

section \<open>Transcription and the processing loop\<close>

lemma join_space_joined: "join '' '' segments = space_joined segments"
proof (induction segments)
  case Nil
  then show ?case by simp
next
  case (Cons x xs)
  then show ?case by (cases xs) simp_all
qed

lemma strip_trimmed_of: "trimmed_of (strip full) full"
proof -
  define d where "d = dropWhile isspace full"
  define l where "l = takeWhile isspace full"
  define r where "r = rev (takeWhile isspace (rev d))"
  have full: "full = l @ d" by (simp add: l_def d_def)
  have "rev (takeWhile isspace (rev d) @ dropWhile isspace (rev d)) = rev (rev d)"
    by (simp only: takeWhile_dropWhile_id)
  then have "rev (dropWhile isspace (rev d)) @ rev (takeWhile isspace (rev d)) = d"
    by (simp only: rev_append rev_rev_ident)
  then have d: "d = strip full @ r" unfolding strip_def r_def d_def by (rule sym)
  have ws_l: "\<forall>c\<in>set l. isspace c" by (auto simp: l_def dest: set_takeWhileD)
  have ws_r: "\<forall>c\<in>set r. isspace c" by (auto simp: r_def dest: set_takeWhileD)
  have ends: "strip full = [] \<or> (\<not> isspace (hd (strip full)) \<and> \<not> isspace (last (strip full)))"
  proof (cases "strip full = []")
    case True
    then show ?thesis by simp
  next
    case False
    then have dn: "d \<noteq> []" using d by auto
    have "hd (strip full) = hd d" using d False by (metis hd_append2)
    moreover have "\<not> isspace (hd d)" using dn unfolding d_def by (rule hd_dropWhile)
    moreover have dr: "dropWhile isspace (rev d) \<noteq> []" using False by (simp add: strip_def d_def)
    have "last (strip full) = hd (dropWhile isspace (rev d))"
      using dr by (simp add: strip_def d_def last_rev)
    moreover have "\<not> isspace (hd (dropWhile isspace (rev d)))" using dr by (rule hd_dropWhile)
    ultimately show ?thesis by simp
  qed
  from full d have "full = l @ strip full @ r" by simp
  with ws_l ws_r ends show ?thesis unfolding trimmed_of_def by blast
qed

text \<open>
  Claim C7, as amended. When decoding succeeds and the engine returns its segments, and the
  texts of the segments joined with single spaces in the order returned are not empty,
  the transcription is that joined text trimmed of surrounding whitespace; when the joined
  text is empty (no segments, or one empty segment) there is no transcription at all.
\<close>

theorem faster_whisper_joins_segments:
  assumes "frombuffer audio_data = Inr audio_array"
    and "model_transcribe audio_array = Inr segments"
  shows "(space_joined segments \<noteq> [] \<longrightarrow>
            (\<exists>t. transcribe_with_faster_whisper frombuffer model_transcribe audio_data
                    = Inr (Some t, [])
                 \<and> trimmed_of t (space_joined segments)))
       \<and> (space_joined segments = [] \<longrightarrow>
            transcribe_with_faster_whisper frombuffer model_transcribe audio_data
              = Inr (None, []))"
  using assms strip_trimmed_of [of "space_joined segments"]
  by (simp add: transcribe_with_faster_whisper_def Let_def join_space_joined)

theorem faster_whisper_joins_segments_witness:
  "transcribe_with_faster_whisper one_sample (\<lambda>a. Inr [''hel'', ''lo'']) ''1234''
     = Inr (Some ''hel lo'', [])
   \<and> transcribe_with_faster_whisper one_sample
        (\<lambda>a. Inr ['' one'', ''two'', '''', ''three  '']) ''1234''
     = Inr (Some ''one two  three'', [])
   \<and> space_joined ['' one'', ''two'', '''', ''three  ''] = '' one two  three  ''
   \<and> trimmed_of ''one two  three'' '' one two  three  ''
   \<and> transcribe_with_faster_whisper one_sample (\<lambda>a. Inr ['''', '''']) ''1234''
     = Inr (Some [], [])
   \<and> transcribe_with_faster_whisper one_sample (\<lambda>a. Inr []) ''1234'' = Inr (None, [])"
proof -
  have d: "one_sample ''1234'' = Inr [Finite 1]" by (simp add: one_sample_def)
  note A = faster_whisper_joins_segments
             [of one_sample "''1234''" "[Finite 1]"
                 "\<lambda>a. Inr ['' one'', ''two'', '''', ''three  '']"
                 "['' one'', ''two'', '''', ''three  '']", OF d]
  note B = faster_whisper_joins_segments
             [of one_sample "''1234''" "[Finite 1]" "\<lambda>a. Inr []" "[]", OF d]
  have c: "transcribe_with_faster_whisper one_sample
        (\<lambda>a. Inr ['' one'', ''two'', '''', ''three  '']) ''1234''
     = Inr (Some ''one two  three'', [])"
    by (simp add: transcribe_with_faster_whisper_def one_sample_def strip_def isspace_def)
  from A c have t: "trimmed_of ''one two  three'' (space_joined ['' one'', ''two'', '''', ''three  ''])"
    by auto
  have s: "space_joined ['' one'', ''two'', '''', ''three  ''] = '' one two  three  ''" by simp
  have h: "transcribe_with_faster_whisper one_sample (\<lambda>a. Inr [''hel'', ''lo'']) ''1234''
     = Inr (Some ''hel lo'', [])"
    by (simp add: transcribe_with_faster_whisper_def one_sample_def strip_def isspace_def)
  have e: "transcribe_with_faster_whisper one_sample (\<lambda>a. Inr ['''', '''']) ''1234''
     = Inr (Some [], [])"
    by (simp add: transcribe_with_faster_whisper_def one_sample_def strip_def isspace_def)
  from B have n: "transcribe_with_faster_whisper one_sample (\<lambda>a. Inr []) ''1234'' = Inr (None, [])"
    by simp
  from h c s t e n show ?thesis by simp
qed

text \<open>
  An engine that returns no segments: the joined and trimmed text would be the empty string,
  and the function returns \<open>None\<close>.
\<close>

theorem faster_whisper_no_segments_counterexample:
  "transcribe_with_faster_whisper one_sample (\<lambda>a. Inr []) ''1234'' = Inr (None, [])
   \<and> transcribe_with_faster_whisper one_sample (\<lambda>a. Inr []) ''1234''
       \<noteq> Inr (Some (strip (space_joined [])), [])"
  by (simp add: transcribe_with_faster_whisper_def one_sample_def)

text \<open>
  Claim C8. In a cycle that reaches transcription, a result that is \<open>None\<close>, empty or
  all whitespace leaves the state exactly as no result does (only the 0.1 s pause is
  added), and any other result enqueues the stripped transcript and nothing else.
\<close>

theorem blank_transcript_not_enqueued:
  assumes "recorded e = Inr (Some audio_data)" and "audio_data \<noteq> []"
    and "speech e audio_data = Inr True"
    and "transcribed e audio_data = Inr text"
  shows "audio_processing_cycle e s =
           Inr (if text = None \<or> (\<forall>c\<in>set (the text). isspace c)
                then s\<lparr>sleeps := sleeps s @ [1 / 10]\<rparr>
                else s\<lparr>message_buffer := message_buffer s @ [strip (the text)],
                       log := log s @ [(INFO, ''ASR transcribed: '' @ strip (the text))],
                       sleeps := sleeps s @ [1 / 10]\<rparr>)"
proof (cases "text")
  case None
  with assms show ?thesis
    by (simp add: audio_processing_cycle_def cycle_body_def enqueue_text_def)
next
  case (Some t)
  have blank: "(\<forall>c\<in>set t. isspace c) \<longleftrightarrow> strip t = []" by (simp add: strip_empty_iff)
  show ?thesis
  proof (cases "strip t = []")
    case True
    with assms Some blank show ?thesis
      by (simp add: audio_processing_cycle_def cycle_body_def enqueue_text_def)
  next
    case False
    then have "t \<noteq> []" by (auto simp: strip_def)
    with False assms Some blank show ?thesis
      by (simp add: audio_processing_cycle_def cycle_body_def enqueue_text_def)
  qed
qed

theorem blank_transcript_not_enqueued_witness:
  "audio_processing_cycle
      \<lparr>recorded = Inr (Some ''x''), speech = (\<lambda>a. Inr True),
        transcribed = (\<lambda>a. Inr None)\<rparr> asr_init = Inr (asr_init\<lparr>sleeps := [1 / 10]\<rparr>)
   \<and> audio_processing_cycle
      \<lparr>recorded = Inr (Some ''x''), speech = (\<lambda>a. Inr True),
        transcribed = (\<lambda>a. Inr (Some []))\<rparr> asr_init = Inr (asr_init\<lparr>sleeps := [1 / 10]\<rparr>)
   \<and> audio_processing_cycle
      \<lparr>recorded = Inr (Some ''x''), speech = (\<lambda>a. Inr True),
        transcribed = (\<lambda>a. Inr (Some ''  ''))\<rparr> asr_init = Inr (asr_init\<lparr>sleeps := [1 / 10]\<rparr>)
   \<and> audio_processing_cycle
      \<lparr>recorded = Inr (Some ''x''), speech = (\<lambda>a. Inr True),
        transcribed = (\<lambda>a. Inr (Some '' hi ''))\<rparr> asr_init
       = Inr (asr_init\<lparr>message_buffer := [''hi''], log := [(INFO, ''ASR transcribed: hi'')],
                       sleeps := [1 / 10]\<rparr>)"
  using blank_transcript_not_enqueued
          [of "\<lparr>recorded = Inr (Some ''x''), speech = (\<lambda>a. Inr True),
                transcribed = (\<lambda>a. Inr None)\<rparr>" "''x''" None asr_init]
        blank_transcript_not_enqueued
          [of "\<lparr>recorded = Inr (Some ''x''), speech = (\<lambda>a. Inr True),
                transcribed = (\<lambda>a. Inr (Some []))\<rparr>" "''x''" "Some []" asr_init]
        blank_transcript_not_enqueued
          [of "\<lparr>recorded = Inr (Some ''x''), speech = (\<lambda>a. Inr True),
                transcribed = (\<lambda>a. Inr (Some ''  ''))\<rparr>" "''x''" "Some ''  ''" asr_init]
        blank_transcript_not_enqueued
          [of "\<lparr>recorded = Inr (Some ''x''), speech = (\<lambda>a. Inr True),
                transcribed = (\<lambda>a. Inr (Some '' hi ''))\<rparr>" "''x''" "Some '' hi ''" asr_init]
  by (simp add: asr_init_def strip_def isspace_def)

lemma isl_cycle_body: "isl (cycle_body e s) = isl (cycle_body e s0)"
  by (auto simp: cycle_body_def Let_def split: sum.splits option.splits bool.splits)

lemma cycle_body_Inl: "cycle_body e s = Inl x \<Longrightarrow> cycle_body e s0 = Inl x"
  by (auto simp: cycle_body_def Let_def split: sum.splits option.splits bool.splits if_splits)

lemma sleeps_enqueue_text [simp]: "sleeps (enqueue_text t s) = sleeps s"
  by (simp add: enqueue_text_def split: option.splits)

lemma sleeps_cycle_body:
  "cycle_body e s = Inr s' \<Longrightarrow> sleeps s' = sleeps s @ [1 / 10]"
  by (auto simp: cycle_body_def Let_def split: sum.splits option.splits bool.splits if_splits)

lemma cycle_continues:
  assumes "\<forall>b. cycle_body e s0 \<noteq> Inl (BaseException b)"
  shows "\<exists>s'. audio_processing_cycle e s = Inr s'
            \<and> sleeps s' = sleeps s @ [if isl (cycle_body e s0) then 1 else 1 / 10]"
proof (cases "cycle_body e s")
  case (Inr s')
  then have "\<not> isl (cycle_body e s0)" using isl_cycle_body [of e s s0] by simp
  with Inr sleeps_cycle_body [OF Inr] show ?thesis
    by (simp add: audio_processing_cycle_def)
next
  case (Inl x)
  then have x0: "cycle_body e s0 = Inl x" by (rule cycle_body_Inl)
  with assms obtain ex where "x = Exception ex" by (cases x) auto
  with Inl x0 show ?thesis by (simp add: audio_processing_cycle_def)
qed

lemma loop_continues:
  assumes "\<forall>e\<in>set es. \<forall>b. cycle_body e s0 \<noteq> Inl (BaseException b)"
  shows "fst (audio_processing_loop es s) = None
       \<and> sleeps (snd (audio_processing_loop es s))
           = sleeps s @ map (\<lambda>e. if isl (cycle_body e s0) then 1 else 1 / 10) es"
  using assms
proof (induction es arbitrary: s)
  case Nil
  then show ?case by simp
next
  case (Cons e es)
  from Cons.prems have "\<forall>b. cycle_body e s0 \<noteq> Inl (BaseException b)" by simp
  from cycle_continues [OF this, of s] obtain s' where
    c: "audio_processing_cycle e s = Inr s'"
    and sl: "sleeps s' = sleeps s @ [if isl (cycle_body e s0) then 1 else 1 / 10]" by blast
  from Cons.prems have "\<forall>e\<in>set es. \<forall>b. cycle_body e s0 \<noteq> Inl (BaseException b)" by simp
  from Cons.IH [OF this, of s'] c sl show ?case by simp
qed

lemma source_cycle_no_exception:
  "cycle_body (source_cycle_env cfg frombuffer np_rms create_transcription model_transcribe
                 device) s \<noteq> Inl (Exception x)"
  by (auto simp: cycle_body_def source_cycle_env_def lift_call_def Let_def
        split: sum.splits option.splits bool.splits prod.splits)

lemma source_cycle_sleeps:
  assumes "audio_processing_cycle
             (source_cycle_env cfg frombuffer np_rms create_transcription model_transcribe
                device) s = Inr s'"
  shows "sleeps s' = sleeps s @ [1 / 10]"
proof (cases "cycle_body (source_cycle_env cfg frombuffer np_rms create_transcription
                            model_transcribe device) s")
  case (Inr s'')
  with assms have "s'' = s'" by (simp add: audio_processing_cycle_def)
  with sleeps_cycle_body [OF Inr] show ?thesis by simp
next
  case (Inl x)
  show ?thesis
  proof (cases x)
    case (Exception ex)
    with Inl source_cycle_no_exception show ?thesis by blast
  next
    case (BaseException b)
    with Inl assms show ?thesis by (simp add: audio_processing_cycle_def)
  qed
qed

text \<open>
  Claim C6, as amended. As long as what the cycles raise are instances of \<open>Exception\<close>, the
  loop is never left: every cycle runs and is followed by exactly one pause, 1 second when
  an exception left the \<open>try\<close> block and 0.1 seconds otherwise. An instance of
  \<open>Exception\<close> coming out of the recording call, the gate call or the transcription call
  leaves the \<open>try\<close> block as that exception, and is logged and followed by the 1 second
  pause. With the helpers of the class itself no such exception comes out of them (each
  catches its own), so a cycle that continues ends with the 0.1 second pause.
\<close>

theorem loop_survives_exception_instances:
  assumes "\<forall>e\<in>set es. \<forall>b. cycle_body e s0 \<noteq> Inl (BaseException b)"
  shows "fst (audio_processing_loop es s) = None
       \<and> sleeps (snd (audio_processing_loop es s))
           = sleeps s @ map (\<lambda>e. if isl (cycle_body e s0) then 1 else 1 / 10) es
       \<and> (recorded e = Inl (Exception x) \<longrightarrow> cycle_body e s0 = Inl (Exception x))
       \<and> (recorded e = Inr (Some a) \<and> a \<noteq> [] \<and> speech e a = Inl (Exception x)
            \<longrightarrow> cycle_body e s0 = Inl (Exception x))
       \<and> (recorded e = Inr (Some a) \<and> a \<noteq> [] \<and> speech e a = Inr True
            \<and> transcribed e a = Inl (Exception x) \<longrightarrow> cycle_body e s0 = Inl (Exception x))
       \<and> (cycle_body e s0 = Inl (Exception x) \<longrightarrow>
            audio_processing_cycle e s0
              = Inr (s0\<lparr>log := log s0 @ [(ERROR, ''Error in audio processing loop: ''
                                                  @ exn_str x)],
                        sleeps := sleeps s0 @ [1]\<rparr>))
       \<and> (\<forall>s'. audio_processing_cycle
                  (source_cycle_env cfg frombuffer np_rms create_transcription
                     model_transcribe device) s = Inr s'
               \<longrightarrow> sleeps s' = sleeps s @ [1 / 10])"
proof -
  have "recorded e = Inl (Exception x) \<longrightarrow> cycle_body e s0 = Inl (Exception x)"
    by (simp add: cycle_body_def)
  moreover have "recorded e = Inr (Some a) \<and> a \<noteq> [] \<and> speech e a = Inl (Exception x)
                   \<longrightarrow> cycle_body e s0 = Inl (Exception x)"
    by (simp add: cycle_body_def)
  moreover have "recorded e = Inr (Some a) \<and> a \<noteq> [] \<and> speech e a = Inr True
                   \<and> transcribed e a = Inl (Exception x) \<longrightarrow> cycle_body e s0 = Inl (Exception x)"
    by (simp add: cycle_body_def)
  moreover have "cycle_body e s0 = Inl (Exception x) \<longrightarrow>
            audio_processing_cycle e s0
              = Inr (s0\<lparr>log := log s0 @ [(ERROR, ''Error in audio processing loop: ''
                                                  @ exn_str x)],
                        sleeps := sleeps s0 @ [1]\<rparr>)"
    by (simp add: audio_processing_cycle_def)
  moreover have "\<forall>s'. audio_processing_cycle
                  (source_cycle_env cfg frombuffer np_rms create_transcription
                     model_transcribe device) s = Inr s'
               \<longrightarrow> sleeps s' = sleeps s @ [1 / 10]"
    using source_cycle_sleeps by blast
  ultimately show ?thesis using loop_continues [OF assms, of s] by blast
qed


theorem loop_survives_exception_instances_witness:
  "fst (audio_processing_loop
          [cycle_record_raises, cycle_gate_raises, cycle_transcribe_raises, cycle_hears_hi]
          asr_init) = None
   \<and> sleeps (snd (audio_processing_loop
          [cycle_record_raises, cycle_gate_raises, cycle_transcribe_raises, cycle_hears_hi]
          asr_init)) = [1, 1, 1, 1 / 10]
   \<and> audio_processing_cycle cycle_record_raises asr_init
       = Inr (asr_init\<lparr>log := [(ERROR, ''Error in audio processing loop: boom'')],
                       sleeps := [1]\<rparr>)
   \<and> audio_processing_cycle cycle_gate_raises asr_init
       = Inr (asr_init\<lparr>log := [(ERROR, ''Error in audio processing loop: boom'')],
                       sleeps := [1]\<rparr>)
   \<and> audio_processing_cycle cycle_transcribe_raises asr_init
       = Inr (asr_init\<lparr>log := [(ERROR, ''Error in audio processing loop: boom'')],
                       sleeps := [1]\<rparr>)
   \<and> audio_processing_cycle cycle_microphone_fails asr_init
       = Inr (asr_init\<lparr>sleeps := [1 / 10]\<rparr>)"
proof -
  let ?es = "[cycle_record_raises, cycle_gate_raises, cycle_transcribe_raises, cycle_hears_hi]"
  have b1: "cycle_body cycle_record_raises asr_init = Inl (Exception boom)"
    by (simp add: cycle_body_def cycle_record_raises_def)
  have b2: "cycle_body cycle_gate_raises asr_init = Inl (Exception boom)"
    by (simp add: cycle_body_def cycle_gate_raises_def)
  have b3: "cycle_body cycle_transcribe_raises asr_init = Inl (Exception boom)"
    by (simp add: cycle_body_def cycle_transcribe_raises_def)
  have b4: "\<not> isl (cycle_body cycle_hears_hi asr_init)"
    by (simp add: cycle_body_def cycle_hears_hi_def)
  then have b4': "\<forall>b. cycle_body cycle_hears_hi asr_init \<noteq> Inl (BaseException b)" by auto
  have hyp: "\<forall>e\<in>set ?es. \<forall>b. cycle_body e asr_init \<noteq> Inl (BaseException b)"
    using b1 b2 b3 b4' by simp
  have m: "audio_processing_cycle cycle_microphone_fails asr_init
             = Inr (asr_init\<lparr>sleeps := [1 / 10]\<rparr>)"
    by (simp add: audio_processing_cycle_def cycle_body_def cycle_microphone_fails_def
          source_cycle_env_def lift_call_def record_audio_chunk_def boom_def asr_init_def)
  note A = loop_survives_exception_instances [OF hyp, of asr_init _ boom]
  have l: "fst (audio_processing_loop ?es asr_init) = None"
    using A [of cycle_record_raises] by blast
  have A2: "sleeps (snd (audio_processing_loop ?es asr_init))
              = sleeps asr_init
                @ map (\<lambda>e. if isl (cycle_body e asr_init) then 1 else 1 / 10) ?es"
    using A [of cycle_record_raises] by blast
  have mp: "map (\<lambda>e. if isl (cycle_body e asr_init) then 1 else 1 / 10) ?es
              = [1, 1, 1, 1 / 10 :: rat]"
    using b1 b2 b3 b4 by simp
  have s0: "sleeps asr_init = []" by (simp add: asr_init_def)
  have sl: "sleeps (snd (audio_processing_loop ?es asr_init)) = [1, 1, 1, 1 / 10]"
    unfolding A2 mp s0 by simp
  have e: "exn_str boom = ''boom''" "log asr_init = []" "sleeps asr_init = []"
    by (simp_all add: boom_def asr_init_def)
  from A [of cycle_record_raises] b1 e
  have c1: "audio_processing_cycle cycle_record_raises asr_init
       = Inr (asr_init\<lparr>log := [(ERROR, ''Error in audio processing loop: boom'')],
                       sleeps := [1]\<rparr>)" by simp
  from A [of cycle_gate_raises] b2 e
  have c2: "audio_processing_cycle cycle_gate_raises asr_init
       = Inr (asr_init\<lparr>log := [(ERROR, ''Error in audio processing loop: boom'')],
                       sleeps := [1]\<rparr>)" by simp
  from A [of cycle_transcribe_raises] b3 e
  have c3: "audio_processing_cycle cycle_transcribe_raises asr_init
       = Inr (asr_init\<lparr>log := [(ERROR, ''Error in audio processing loop: boom'')],
                       sleeps := [1]\<rparr>)" by simp
  from l sl c1 c2 c3 m show ?thesis by blast
qed

text \<open>
  Where the claim fails. The task is cancelled while the hosted transcription is awaited:
  \<open>CancelledError\<close> is no \<open>Exception\<close>, the loop is left without a log line or a pause,
  and the next cycle never runs. And the microphone fails inside \<open>_record_audio_chunk\<close>:
  the helper catches it, and the pause is 0.1 seconds, not 1 second.
\<close>

theorem loop_left_by_cancellation_counterexample:
  "audio_processing_loop [cycle_upload_cancelled, cycle_hears_hi] asr_init
     = (Some CancelledError, asr_init)
   \<and> audio_processing_cycle cycle_microphone_fails asr_init
       = Inr (asr_init\<lparr>sleeps := [1 / 10]\<rparr>)"
  by (simp add: audio_processing_cycle_def cycle_body_def cycle_microphone_fails_def
        cycle_upload_cancelled_def source_cycle_env_def lift_call_def record_audio_chunk_def
        has_speech_def transcribe_audio_def transcribe_with_openai_def openai_cfg_def
        one_sample_def rms_of_one_def boom_def asr_init_def)

section \<open>The speech connectors\<close>

lemma synthesize_piper_raised:
  "piper_process env = Raised e \<Longrightarrow>
   synthesize_piper c env text w =
     (None, w\<lparr>fs := (fs w)((next_tmp w, ''.txt'') \<mapsto> text, (Suc (next_tmp w), ''.wav'') \<mapsto> []),
              next_tmp := Suc (Suc (next_tmp w)),
              trace := trace w @ [Subprocess (piper_cmd c w) (Some text),
                                  Log ERROR (''Piper synthesis error: '' @ exn_str e)]\<rparr>)"
  by (simp add: synthesize_piper_def NamedTemporaryFile_def write_file_def emit_def piper_cmd_def)

lemma synthesize_piper_exit0:
  "piper_process env = Exited 0 err \<Longrightarrow>
   synthesize_piper c env text w =
     (Some (piper_output env),
      w\<lparr>fs := (fs w)((next_tmp w, ''.txt'') := None, (Suc (next_tmp w), ''.wav'') := None),
        next_tmp := Suc (Suc (next_tmp w)),
        trace := trace w @ [Subprocess (piper_cmd c w) (Some text),
                            Log INFO (''Piper TTS synthesized '' @ str_nat (length text)
                                      @ '' characters'')]\<rparr>)"
  by (simp add: synthesize_piper_def NamedTemporaryFile_def write_file_def emit_def piper_cmd_def
        unlink_def)

lemma synthesize_piper_exit_nonzero:
  "piper_process env = Exited rc err \<Longrightarrow> rc \<noteq> 0 \<Longrightarrow>
   synthesize_piper c env text w =
     (None,
      w\<lparr>fs := (fs w)((next_tmp w, ''.txt'') := None, (Suc (next_tmp w), ''.wav'') := None),
        next_tmp := Suc (Suc (next_tmp w)),
        trace := trace w @ [Subprocess (piper_cmd c w) (Some text),
                            Log ERROR (''Piper TTS error: '' @ err)]\<rparr>)"
  by (simp add: synthesize_piper_def NamedTemporaryFile_def write_file_def emit_def piper_cmd_def
        unlink_def)


lemma synthesize_piper_result:
  "fst (synthesize_piper c env text w) =
     (case piper_process env of
        Exited rc err \<Rightarrow> if rc = 0 then Some (piper_output env) else None
      | Raised e \<Rightarrow> None)"
proof (cases "piper_process env")
  case (Exited rc err)
  then show ?thesis
    by (cases "rc = 0") (simp_all add: synthesize_piper_exit0 synthesize_piper_exit_nonzero)
next
  case (Raised e)
  then show ?thesis by (simp add: synthesize_piper_raised)
qed

lemma synthesize_piper_trace:
  "\<exists>l m. trace (snd (synthesize_piper c env text w))
           = trace w @ [Subprocess (piper_cmd c w) (Some text), Log l m]"
proof (cases "piper_process env")
  case (Exited rc err)
  then show ?thesis
    by (cases "rc = 0") (simp_all add: synthesize_piper_exit0 synthesize_piper_exit_nonzero)
next
  case (Raised e)
  then show ?thesis by (simp add: synthesize_piper_raised)
qed

lemma is_synthesis_piper_cmd [simp]: "is_synthesis (Subprocess (piper_cmd c w) inp)"
  by (simp add: is_synthesis_def piper_cmd_def)

lemma event_kinds [simp]:
  "\<not> is_synthesis (Log l m)" "\<not> is_http (Log l m)" "\<not> is_http (Subprocess argv inp)"
  "\<not> is_synthesis (HttpPost u h b)" "is_http (HttpPost u h b)"
  "\<not> is_synthesis (SoundPlay a)" "\<not> is_http (SoundPlay a)"
  "\<not> is_subprocess (Log l m)" "is_subprocess (Subprocess argv inp)"
  "\<not> is_sound (Log l m)" "\<not> is_sound (Subprocess argv inp)"
  "\<not> is_sound (HttpPost u h b)" "is_sound (SoundPlay a)"
  by (simp_all add: is_synthesis_def is_http_def is_subprocess_def is_sound_def)

lemma synthesize_piper_counts:
  "length (filter is_synthesis (trace (snd (synthesize_piper c env text w))))
     = Suc (length (filter is_synthesis (trace w)))"
  "filter is_http (trace (snd (synthesize_piper c env text w))) = filter is_http (trace w)"
  "filter is_sound (trace (snd (synthesize_piper c env text w))) = filter is_sound (trace w)"
  using synthesize_piper_trace [of c env "text" w] by auto

lemma play_audio_trace:
  "filter is_synthesis (trace (elevenlabs_play_audio env a w)) = filter is_synthesis (trace w)"
  "filter is_http (trace (elevenlabs_play_audio env a w)) = filter is_http (trace w)"
  by (simp_all add: elevenlabs_play_audio_def NamedTemporaryFile_def write_file_def emit_def
        unlink_def Let_def split: option.splits)

lemma play_audio_sound:
  "filter is_sound (trace (elevenlabs_play_audio env a w))
     = filter is_sound (trace w)
       @ (if sf_read env = None \<and> sd_play env = None then [SoundPlay a] else [])"
  by (simp add: elevenlabs_play_audio_def NamedTemporaryFile_def write_file_def emit_def
        unlink_def Let_def split: option.splits)

lemma synthesize_no_key:
  "\<not> use_elevenlabs c \<Longrightarrow>
   synthesize c env text w = (fst (synthesize_piper c env text w), c, snd (synthesize_piper c env text w))"
  by (simp add: synthesize_def split: prod.splits)

lemma tts_step_no_key:
  assumes "\<not> use_elevenlabs c"
  shows "fst (tts_step x (c, w)) = c"
    and "filter is_http (trace (snd (tts_step x (c, w)))) = filter is_http (trace w)"
    and "length (filter is_synthesis (trace (snd (tts_step x (c, w)))))
           = Suc (length (filter is_synthesis (trace w)))"
  using assms
  by (cases x; simp add: speak_def synthesize_no_key synthesize_piper_counts play_audio_trace
        split: option.splits)+

lemma tts_run_no_key:
  assumes "\<not> use_elevenlabs c"
  shows "fst (tts_run calls (c, w)) = c
       \<and> filter is_http (trace (snd (tts_run calls (c, w)))) = filter is_http (trace w)
       \<and> length (filter is_synthesis (trace (snd (tts_run calls (c, w)))))
           = length (filter is_synthesis (trace w)) + length calls"
proof (induction calls arbitrary: w)
  case Nil
  then show ?case by simp
next
  case (Cons x xs)
  obtain w' where step: "tts_step x (c, w) = (c, w')"
    using tts_step_no_key(1) [OF assms, of x w] by (cases "tts_step x (c, w)") simp
  have h: "filter is_http (trace w') = filter is_http (trace w)"
    using tts_step_no_key(2) [OF assms, of x w] step by simp
  have n: "length (filter is_synthesis (trace w')) = Suc (length (filter is_synthesis (trace w)))"
    using tts_step_no_key(3) [OF assms, of x w] step by simp
  show ?case using Cons.IH [of w'] step h n by simp
qed

lemma synthesize_piper_exited_cleans:
  assumes "piper_process env = Exited rc err"
    and "(next_tmp w, ''.txt'') \<notin> dom (fs w)" and "(Suc (next_tmp w), ''.wav'') \<notin> dom (fs w)"
  shows "fs (snd (synthesize_piper c env text w)) = fs w"
proof -
  from assms(2,3) have "(fs w)((next_tmp w, ''.txt'') := None, (Suc (next_tmp w), ''.wav'') := None) = fs w"
    by (auto simp: fun_upd_idem_iff domIff)
  with assms(1) show ?thesis
    by (cases "rc = 0") (simp_all add: synthesize_piper_exit0 synthesize_piper_exit_nonzero)
qed

text \<open>
  Claim C1, at the inputs where the code departs from it. When starting the Piper process
  raises (the executable is missing), \<open>_synthesize_piper\<close> returns with its text file and
  its audio file still on disk; when the process of \<open>_synthesize_with_piper\<close> raises (the
  30 s limit among others), \<open>connect\<close> returns with the audio file still on disk. The
  lemma above is the cleanup on the two paths where the process exits.
\<close>

theorem temp_files_left_behind:
  "dom (fs (snd (synthesize_piper c (env\<lparr>piper_process := Raised e\<rparr>) text world0)))
     = {(0, ''.txt''), (1, ''.wav'')}
   \<and> dom (fs (connect (pc\<lparr>piper_available := True\<rparr>)
                 \<lparr>piper_run = Raised e', player_run = players\<rparr> sentence world0))
     = {(0, ''.wav'')}"
  by (auto simp: synthesize_piper_raised world0_def connect_def synthesize_with_piper_def
        NamedTemporaryFile_def emit_def Let_def)

lemma speak_after_non200:
  assumes "use_elevenlabs c" and "http_response env = Inr (status, body)" and "status \<noteq> 200"
  shows "length (filter is_synthesis (trace (snd (snd (speak c env text w)))))
           = Suc (length (filter is_synthesis (trace w)))
       \<and> fst (speak c env text w)
           = ((\<exists>err. piper_process env = Exited 0 err) \<and> piper_output env \<noteq> [])
       \<and> (fst (speak c env text w) \<longrightarrow>
            snd (snd (speak c env text w))
              = elevenlabs_play_audio env (piper_output env) (snd (snd (synthesize c env text w))))
       \<and> filter is_sound (trace (snd (snd (speak c env text w))))
           = filter is_sound (trace w)
             @ (if fst (speak c env text w) \<and> sf_read env = None \<and> sd_play env = None
                then [SoundPlay (piper_output env)] else [])"
proof -
  define w3 where "w3 = emit (Log INFO ''Falling back to Piper TTS'')
       (emit (Log ERROR (''ElevenLabs API error '' @
                            (if status < 0 then ''-'' else []) @ str_nat (nat \<bar>status\<bar>)
                            @ '': '' @ body))
         (emit (HttpPost (''https://api.elevenlabs.io/v1/text-to-speech/'' @ voice_id c)
                     [(''Accept'', ''audio/mpeg''),
                     (''Content-Type'', ''application/json''),
                     (''xi-api-key'', get_default (elevenlabs_api_key c) [])]
                  (JObj [(''text'', JStr text),
                       (''model_id'', JStr (model_id c)),
                       (''voice_settings'',
                          JObj [(''stability'', JNum (stability c)),
                                (''similarity_boost'', JNum (similarity_boost c))])])) w))"
  have syn: "synthesize c env text w
               = (fst (synthesize_piper (c\<lparr>session := True\<rparr>) env text w3),
                  c\<lparr>session := True\<rparr>,
                  snd (synthesize_piper (c\<lparr>session := True\<rparr>) env text w3))"
    using assms
    by (simp add: synthesize_def synthesize_elevenlabs_def Let_def w3_def split: prod.splits)
  have tr: "filter is_synthesis (trace w3) = filter is_synthesis (trace w)"
    by (simp add: w3_def emit_def)
  have cnt: "length (filter is_synthesis
                (trace (snd (synthesize_piper (c\<lparr>session := True\<rparr>) env text w3))))
               = Suc (length (filter is_synthesis (trace w)))"
    by (simp add: synthesize_piper_counts tr)
  have snd0: "filter is_sound
                (trace (snd (synthesize_piper (c\<lparr>session := True\<rparr>) env text w3)))
               = filter is_sound (trace w)"
    by (simp add: synthesize_piper_counts w3_def emit_def)
  have res: "fst (synthesize_piper (c\<lparr>session := True\<rparr>) env text w3) =
     (case piper_process env of
        Exited rc err \<Rightarrow> if rc = 0 then Some (piper_output env) else None
      | Raised e \<Rightarrow> None)"
    by (rule synthesize_piper_result)
  show ?thesis
  proof (cases "piper_process env")
    case (Raised e)
    with syn res cnt snd0 show ?thesis by (simp add: speak_def)
  next
    case (Exited rc err)
    with syn res cnt snd0 show ?thesis
      by (cases "rc = 0") (auto simp: speak_def play_audio_trace play_audio_sound)
  qed
qed

text \<open>
  Claim C3, as amended. With the ElevenLabs provider in use and a response whose status is
  not 200, \<open>speak\<close> runs the Piper synthesis exactly once, and its result is true exactly
  when that process exited with code 0 and left audio bytes. That audio is then handed to
  \<open>_play_audio\<close>, which plays it when neither decoding nor the sound device raises; when
  one of them raises nothing is played and the result is true all the same.
\<close>

theorem non200_falls_back_to_piper_once:
  assumes "use_elevenlabs c" and "http_response env = Inr (status, body)" and "status \<noteq> 200"
  shows "length (filter is_synthesis (trace (snd (snd (speak c env text w)))))
           = Suc (length (filter is_synthesis (trace w)))
       \<and> fst (speak c env text w)
           = ((\<exists>err. piper_process env = Exited 0 err) \<and> piper_output env \<noteq> [])
       \<and> (fst (speak c env text w) \<longrightarrow>
            snd (snd (speak c env text w))
              = elevenlabs_play_audio env (piper_output env) (snd (snd (synthesize c env text w))))
       \<and> filter is_sound (trace (snd (snd (speak c env text w))))
           = filter is_sound (trace w)
             @ (if fst (speak c env text w) \<and> sf_read env = None \<and> sd_play env = None
                then [SoundPlay (piper_output env)] else [])"
  using assms by (rule speak_after_non200)

theorem non200_falls_back_to_piper_once_witness:
  "use_elevenlabs keyed_connector
   \<and> http_response env_500_piper_ok = Inr (500, ''Internal Server Error'')
   \<and> fst (speak keyed_connector env_500_piper_ok ''hi'' world0)
   \<and> length (filter is_synthesis
        (trace (snd (snd (speak keyed_connector env_500_piper_ok ''hi'' world0))))) = 1
   \<and> filter is_sound (trace (snd (snd (speak keyed_connector env_500_piper_ok ''hi'' world0))))
       = [SoundPlay ''RIFF'']
   \<and> \<not> fst (speak keyed_connector env_500_piper_missing ''hi'' world0)
   \<and> length (filter is_synthesis
        (trace (snd (snd (speak keyed_connector env_500_piper_missing ''hi'' world0))))) = 1
   \<and> filter is_sound
        (trace (snd (snd (speak keyed_connector env_500_piper_missing ''hi'' world0)))) = []"
proof -
  have u: "use_elevenlabs keyed_connector"
    by (simp add: keyed_connector_def)
  have h1: "http_response env_500_piper_ok = Inr (500, ''Internal Server Error'')"
    by (simp add: env_500_piper_ok_def)
  have h2: "http_response env_500_piper_missing = Inr (500, ''Internal Server Error'')"
    by (simp add: env_500_piper_missing_def env_500_piper_ok_def)
  have n: "(500::int) \<noteq> 200" by simp
  have t0: "filter is_synthesis (trace world0) = []" "filter is_sound (trace world0) = []"
    by (simp_all add: world0_def)
  have p1: "(\<exists>err. piper_process env_500_piper_ok = Exited 0 err)
              \<and> piper_output env_500_piper_ok \<noteq> []"
           "sf_read env_500_piper_ok = None" "sd_play env_500_piper_ok = None"
           "piper_output env_500_piper_ok = ''RIFF''"
    by (simp_all add: env_500_piper_ok_def)
  have p2: "\<not> (\<exists>err. piper_process env_500_piper_missing = Exited 0 err)"
    by (simp add: env_500_piper_missing_def)
  note A = non200_falls_back_to_piper_once [OF u h1 n, of "''hi''" world0]
  note B = non200_falls_back_to_piper_once [OF u h2 n, of "''hi''" world0]
  from A p1(1) have a1: "fst (speak keyed_connector env_500_piper_ok ''hi'' world0)" by blast
  from A t0 have a2: "length (filter is_synthesis
          (trace (snd (snd (speak keyed_connector env_500_piper_ok ''hi'' world0))))) = 1"
    by simp
  from A have "filter is_sound
          (trace (snd (snd (speak keyed_connector env_500_piper_ok ''hi'' world0))))
       = filter is_sound (trace world0)
             @ (if fst (speak keyed_connector env_500_piper_ok ''hi'' world0)
                   \<and> sf_read env_500_piper_ok = None \<and> sd_play env_500_piper_ok = None
                then [SoundPlay (piper_output env_500_piper_ok)] else [])"
    by blast
  with a1 p1 t0 have a3: "filter is_sound
          (trace (snd (snd (speak keyed_connector env_500_piper_ok ''hi'' world0))))
       = [SoundPlay ''RIFF'']"
    by simp
  from B p2 have b1: "\<not> fst (speak keyed_connector env_500_piper_missing ''hi'' world0)" by blast
  from B t0 have b2: "length (filter is_synthesis
          (trace (snd (snd (speak keyed_connector env_500_piper_missing ''hi'' world0))))) = 1"
    by simp
  from B have "filter is_sound
          (trace (snd (snd (speak keyed_connector env_500_piper_missing ''hi'' world0))))
       = filter is_sound (trace world0)
             @ (if fst (speak keyed_connector env_500_piper_missing ''hi'' world0)
                   \<and> sf_read env_500_piper_missing = None
                   \<and> sd_play env_500_piper_missing = None
                then [SoundPlay (piper_output env_500_piper_missing)] else [])"
    by blast
  with b1 t0 have b3: "filter is_sound
          (trace (snd (snd (speak keyed_connector env_500_piper_missing ''hi'' world0)))) = []"
    by simp
  from u h1 a1 a2 a3 b1 b2 b3 show ?thesis by blast
qed

text \<open>
  The claim's \<open>true iff the audio was then played\<close>, at a machine without a sound device:
  the API answers 500, Piper produces audio, \<open>sd.play\<close> raises. \<open>speak\<close> returns true
  and nothing has been played.
\<close>

theorem speak_true_without_playback_counterexample:
  "use_elevenlabs keyed_connector
   \<and> http_response env_500_no_device = Inr (500, ''Internal Server Error'')
   \<and> fst (speak keyed_connector env_500_no_device ''hi'' world0)
   \<and> filter is_sound (trace (snd (snd (speak keyed_connector env_500_no_device ''hi'' world0))))
       = []"
proof -
  have u: "use_elevenlabs keyed_connector"
    by (simp add: keyed_connector_def)
  have h: "http_response env_500_no_device = Inr (500, ''Internal Server Error'')"
    by (simp add: env_500_no_device_def env_500_piper_ok_def)
  have n: "(500::int) \<noteq> 200" by simp
  have p: "(\<exists>err. piper_process env_500_no_device = Exited 0 err)
              \<and> piper_output env_500_no_device \<noteq> []"
          "sd_play env_500_no_device \<noteq> None"
    by (simp_all add: env_500_no_device_def env_500_piper_ok_def)
  have t0: "filter is_sound (trace world0) = []" by (simp add: world0_def)
  note A = speak_after_non200 [OF u h n, of "''hi''" world0]
  from A p(1) have a1: "fst (speak keyed_connector env_500_no_device ''hi'' world0)" by blast
  from A have "filter is_sound
          (trace (snd (snd (speak keyed_connector env_500_no_device ''hi'' world0))))
       = filter is_sound (trace world0)
             @ (if fst (speak keyed_connector env_500_no_device ''hi'' world0)
                   \<and> sf_read env_500_no_device = None \<and> sd_play env_500_no_device = None
                then [SoundPlay (piper_output env_500_no_device)] else [])"
    by blast
  with p(2) t0 have a2: "filter is_sound
          (trace (snd (snd (speak keyed_connector env_500_no_device ''hi'' world0)))) = []"
    by simp
  from u h a1 a2 show ?thesis by blast
qed

lemma elevenlabs_init_use:
  "elevenlabs_init config key probe w0 = (Inr c, w1) \<Longrightarrow>
   use_elevenlabs c = (key \<noteq> None \<and> key \<noteq> Some [])"
  by (auto simp: elevenlabs_init_def Let_def split: if_splits prod.splits option.splits)

text \<open>
  Claim C4. A connector constructed with no key in the environment (or an empty one) never
  posts to the ElevenLabs endpoint, however many \<open>synthesize\<close> and \<open>speak\<close> calls
  follow: each call runs the Piper synthesis once, and the flag stays off.
\<close>

theorem no_key_never_posts:
  assumes "elevenlabs_init config key probe w0 = (Inr c, w1)"
    and "key = None \<or> key = Some []"
  shows "filter is_http (trace (snd (tts_run calls (c, w)))) = filter is_http (trace w)
       \<and> length (filter is_synthesis (trace (snd (tts_run calls (c, w)))))
           = length (filter is_synthesis (trace w)) + length calls
       \<and> \<not> use_elevenlabs (fst (tts_run calls (c, w)))"
proof -
  from assms have off: "\<not> use_elevenlabs c"
    using elevenlabs_init_use by blast
  from tts_run_no_key [OF off] off show ?thesis by simp
qed

theorem no_key_never_posts_witness:
  "elevenlabs_init empty_config None piper_missing world0
     = (Inr keyless_connector,
        world0\<lparr>trace := [Log INFO ''ElevenLabs API key not found. Will use Piper TTS as fallback.'',
                         Subprocess [''piper'', ''--help''] None,
                         Log WARNING ''Piper TTS not found. Install with: pip install piper-tts'']\<rparr>)
   \<and> filter is_http (trace (snd (tts_run
         [Speak ''hi'' env_500_piper_ok, Synthesize ''yo'' env_500_piper_missing]
         (keyless_connector, world0)))) = []
   \<and> length (filter is_synthesis (trace (snd (tts_run
         [Speak ''hi'' env_500_piper_ok, Synthesize ''yo'' env_500_piper_missing]
         (keyless_connector, world0))))) = 2"
  using no_key_never_posts
          [of empty_config None piper_missing world0 keyless_connector
              "world0\<lparr>trace := [Log INFO ''ElevenLabs API key not found. Will use Piper TTS as fallback.'',
                         Subprocess [''piper'', ''--help''] None,
                         Log WARNING ''Piper TTS not found. Install with: pip install piper-tts'']\<rparr>"
              "[Speak ''hi'' env_500_piper_ok, Synthesize ''yo'' env_500_piper_missing]" world0]
  by (simp add: elevenlabs_init_def empty_config_def piper_missing_def world0_def
        keyless_connector_def get_default_def elevenlabs_check_piper_availability_def
        emit_def Let_def)

lemma connect_unavailable:
  "\<not> piper_available c \<Longrightarrow>
   connect c env sentence w =
     w\<lparr>trace := trace w @ [Log INFO (''Piper TTS speaking: '' @ sentence),
                           Log INFO (''[MOCK TTS] Would speak: '' @ sentence)]\<rparr>"
  by (simp add: connect_def emit_def)

lemma connect_all_unavailable:
  assumes "\<not> piper_available c"
  shows "fs (connect_all c calls w) = fs w \<and> next_tmp (connect_all c calls w) = next_tmp w
       \<and> filter is_subprocess (trace (connect_all c calls w)) = filter is_subprocess (trace w)
       \<and> filter is_sound (trace (connect_all c calls w)) = filter is_sound (trace w)"
proof (induction calls arbitrary: w)
  case Nil
  then show ?case by simp
next
  case (Cons x xs)
  obtain env sentence where x: "x = (env, sentence)" by (cases x)
  show ?case
    unfolding x connect_all.simps connect_unavailable [OF assms]
    using Cons.IH [of "w\<lparr>trace := trace w @ [Log INFO (''Piper TTS speaking: '' @ sentence),
                           Log INFO (''[MOCK TTS] Would speak: '' @ sentence)]\<rparr>"]
    by simp
qed

text \<open>
  Claim C10. When the constructor of \<open>PiperTTSConnector\<close> found Piper unavailable, a
  \<open>connect\<close> adds two log lines and nothing else; over any sequence of calls the files
  and the temporary-name counter are untouched, and no subprocess and no sound is started.
\<close>

theorem unavailable_piper_only_logs:
  assumes "piper_init config probe1 probe2 w0 = (Inr c, w1)" and "\<not> piper_available c"
  shows "connect c env sentence w =
           w\<lparr>trace := trace w @ [Log INFO (''Piper TTS speaking: '' @ sentence),
                                 Log INFO (''[MOCK TTS] Would speak: '' @ sentence)]\<rparr>
       \<and> fs (connect_all c calls w) = fs w
       \<and> next_tmp (connect_all c calls w) = next_tmp w
       \<and> filter is_subprocess (trace (connect_all c calls w)) = filter is_subprocess (trace w)
       \<and> filter is_sound (trace (connect_all c calls w)) = filter is_sound (trace w)"
  using connect_unavailable [OF assms(2)] connect_all_unavailable [OF assms(2)] by simp

theorem unavailable_piper_only_logs_witness:
  "piper_init bare_piper_config piper_missing piper_missing world0
     = (Inr mock_piper_connector,
        world0\<lparr>trace := [Subprocess [''piper'', ''--version''] None,
                         Subprocess [''python'', ''-m'', ''piper'', ''--version''] None,
                         Log WARNING ''Piper TTS not available. Speech will be logged only.'']\<rparr>)
   \<and> \<not> piper_available mock_piper_connector
   \<and> connect mock_piper_connector piper_env_ok ''hello'' world0
       = world0\<lparr>trace := [Log INFO ''Piper TTS speaking: hello'',
                           Log INFO ''[MOCK TTS] Would speak: hello'']\<rparr>
   \<and> fs (connect_all mock_piper_connector [(piper_env_ok, ''a''), (piper_env_ok, ''b'')] world0)
       = Map.empty
   \<and> filter is_subprocess
        (trace (connect_all mock_piper_connector [(piper_env_ok, ''a''), (piper_env_ok, ''b'')]
                  world0)) = []"
  using unavailable_piper_only_logs
          [of bare_piper_config piper_missing piper_missing world0 mock_piper_connector
              "world0\<lparr>trace := [Subprocess [''piper'', ''--version''] None,
                         Subprocess [''python'', ''-m'', ''piper'', ''--version''] None,
                         Log WARNING ''Piper TTS not available. Speech will be logged only.'']\<rparr>"
              piper_env_ok "''hello''" world0
              "[(piper_env_ok, ''a''), (piper_env_ok, ''b'')]"]
  by (simp add: piper_init_def piper_check_piper_availability_def bare_piper_config_def
        piper_missing_def probe_caught_def mock_piper_connector_def world0_def get_default_def
        emit_def Let_def)

end
